theory Spec2Isabelle
  imports Complex_Main "HOL-Library.Word"
begin

unbundle bit_operations_syntax

section \<open>The matrix visualization: audio analysis and preset control\<close>

text \<open>
  A shallow embedding of \<^verbatim>\<open>src/src/main.cpp\<close> (class \<^verbatim>\<open>CVisualizationMatrix\<close>).

  Conventions of the embedding.
  \<^item> \<^verbatim>\<open>float\<close> and \<^verbatim>\<open>double\<close> values are modelled as exact reals: rounding of the
    IEEE operations, infinities and NaN are outside the model. Every statement below
    about a sample, a magnitude or a decibel value is a statement about the formula the
    code evaluates.
  \<^item> A C array is a list; a pointer into an array is the list together with a base
    index. A read or write outside the array is undefined behaviour in C++ and is the
    result \<open>Inl OutOfBounds\<close> in the model.
  \<^item> \<^verbatim>\<open>size_t\<close> is 64 bits wide, \<^verbatim>\<open>int\<close> is 32 bits wide.
  \<^item> The host (Kodi settings, file system, image decoder, shader compiler, the pixels the
    GPU hands back, the clock) is a parameter of the functions that consult it.
\<close>

subsection \<open>Constants\<close>

definition SMOOTHING_TIME_CONSTANT :: real where
  "SMOOTHING_TIME_CONSTANT = 0.5"

definition MIN_DECIBELS :: real where
  "MIN_DECIBELS = - 100.0"

definition MAX_DECIBELS :: real where
  "MAX_DECIBELS = - 30.0"

definition AUDIO_BUFFER :: nat where
  "AUDIO_BUFFER = 1024"

definition NUM_BANDS :: nat where
  "NUM_BANDS = AUDIO_BUFFER div 2"

definition UCHAR_MAX :: int where
  "UCHAR_MAX = 255"

datatype error = OutOfBounds | DivByZero | SignedOverflow | UndefinedShift

subsection \<open>Down-mix and ring buffer\<close>

text \<open>
  The inner loop of \<^verbatim>\<open>Mix\<close>:
  \<^verbatim>\<open>for (size_t j = 0; j < channels; j++) v += source[i + j];\<close>
  with \<open>i\<close> already offset by the base index of \<^verbatim>\<open>source\<close>.
\<close>

function Mix_sum :: "real list \<Rightarrow> nat \<Rightarrow> nat \<Rightarrow> nat \<Rightarrow> real \<Rightarrow> error + real" where
  "Mix_sum source i channels j v =
     (if j < channels then
        (if i + j < length source then Mix_sum source i channels (Suc j) (v + source ! (i + j))
         else Inl OutOfBounds)
      else Inr v)"
  by pat_completeness auto
termination
  by (relation "measure (\<lambda>(source, i, channels, j, v). channels - j)") auto

declare Mix_sum.simps [simp del]

text \<open>
  The outer loop of \<^verbatim>\<open>Mix\<close>:
  \<^verbatim>\<open>for (unsigned int i = 0; i < length; i += channels) { ...; destination[(i / 2)] = v / (float)channels; }\<close>
  \<open>d0\<close> and \<open>s0\<close> are the base indices of \<^verbatim>\<open>destination\<close> and \<^verbatim>\<open>source\<close> in their
  arrays. With \<open>channels = 0\<close> the bound \<open>len = frames * channels\<close> is 0 and the body never
  runs; the second conjunct of the guard only records that. The counter is a natural
  number: the 32-bit wrap of \<^verbatim>\<open>unsigned int\<close> needs a buffer of 2^32 samples.
\<close>

function Mix_loop ::
  "real list \<Rightarrow> nat \<Rightarrow> real list \<Rightarrow> nat \<Rightarrow> nat \<Rightarrow> nat \<Rightarrow> nat \<Rightarrow> error + real list" where
  "Mix_loop destination d0 source s0 len channels i =
     (if i < len \<and> 0 < channels then
        (case Mix_sum source (s0 + i) channels 0 0 of
           Inl e \<Rightarrow> Inl e
         | Inr v \<Rightarrow>
             if d0 + i div 2 < length destination then
               Mix_loop (destination[d0 + i div 2 := v / real channels]) d0 source s0
                 len channels (i + channels)
             else Inl OutOfBounds)
      else Inr destination)"
  by pat_completeness auto
termination
  by (relation "measure (\<lambda>(destination, d0, source, s0, len, channels, i). len - i)") auto

declare Mix_loop.simps [simp del]

definition Mix ::
  "real list \<Rightarrow> nat \<Rightarrow> real list \<Rightarrow> nat \<Rightarrow> nat \<Rightarrow> nat \<Rightarrow> error + real list" where
  "Mix destination d0 source s0 frames channels =
     Mix_loop destination d0 source s0 (frames * channels) channels 0"

text \<open>
  \<^verbatim>\<open>memmove(m_pcm, m_pcm + frames, keep * sizeof(float))\<close>: the \<open>keep\<close> elements from
  index \<open>frames\<close> move to the front, the rest of the array stays.
\<close>

definition memmove_front :: "real list \<Rightarrow> nat \<Rightarrow> nat \<Rightarrow> real list" where
  "memmove_front pcm frames keep = take keep (drop frames pcm) @ drop keep pcm"

text \<open>
  \<^verbatim>\<open>WriteToBuffer(input, length, channels)\<close> on the ring \<^verbatim>\<open>m_pcm\<close>. The division
  \<^verbatim>\<open>length / channels\<close> traps for \<open>channels = 0\<close>.
\<close>

definition WriteToBuffer :: "real list \<Rightarrow> real list \<Rightarrow> nat \<Rightarrow> nat \<Rightarrow> error + real list" where
  "WriteToBuffer pcm input len channels =
     (if channels = 0 then Inl DivByZero
      else
        let frames = len div channels in
        if frames \<ge> AUDIO_BUFFER then
          let offset = frames - AUDIO_BUFFER in
          Mix pcm 0 input offset AUDIO_BUFFER channels
        else
          let keep = AUDIO_BUFFER - frames in
          Mix (memmove_front pcm frames keep) keep input 0 frames channels)"

text \<open>
  What the specification asks of the down-mix, in its own words: output frame \<open>j\<close> is the
  average of the \<open>channelCount\<close> interleaved samples of input frame \<open>j\<close>; the ring holds
  the most recent \<open>N\<close> of these frames.
\<close>

definition spec_mono_frame :: "real list \<Rightarrow> nat \<Rightarrow> nat \<Rightarrow> real" where
  "spec_mono_frame samples channelCount j =
     (\<Sum>k = 0..<channelCount. samples ! (j * channelCount + k)) / real channelCount"

definition spec_downmix :: "real list \<Rightarrow> nat \<Rightarrow> real list" where
  "spec_downmix samples channelCount =
     map (spec_mono_frame samples channelCount) [0..<length samples div channelCount]"

definition spec_most_recent :: "nat \<Rightarrow> real list \<Rightarrow> real list" where
  "spec_most_recent n frames = drop (length frames - n) frames"

subsection \<open>Window, smoothing and decibel scaling\<close>

definition BlackmanWindow :: "real \<Rightarrow> nat \<Rightarrow> nat \<Rightarrow> real" where
  "BlackmanWindow inp i len =
     (let alpha = 0.16;
          a0 = 0.5 * (1.0 - alpha);
          a1 = 0.5;
          a2 = 0.5 * alpha;
          x = real i / real len
      in inp * (a0 - a1 * cos (2.0 * pi * x) + a2 * cos (4.0 * pi * x)))"

text \<open>
  \<^verbatim>\<open>SmoothingOverTime\<close> works on buffers given by pointers, and \<^verbatim>\<open>AudioData\<close> passes
  \<^verbatim>\<open>m_magnitudeBuffer\<close> for both \<^verbatim>\<open>outputBuffer\<close> and \<^verbatim>\<open>lastOutputBuffer\<close>. The model
  keeps the float buffers in a store indexed by a buffer name, so that the two
  parameters may name the same buffer, as they do in the call.
\<close>

datatype buffer = MagnitudeBuffer | ScratchBuffer

type_synonym store = "buffer \<Rightarrow> real list"

function SmoothingOverTime_loop ::
  "store \<Rightarrow> buffer \<Rightarrow> buffer \<Rightarrow> complex list \<Rightarrow> nat \<Rightarrow> real \<Rightarrow> nat \<Rightarrow> nat \<Rightarrow> error + store" where
  "SmoothingOverTime_loop h outputBuffer lastOutputBuffer inputBuffer len smoothingTimeConstant fftSize i =
     (if i < len then
        (if i < length inputBuffer \<and> i < length (h lastOutputBuffer) \<and> i < length (h outputBuffer) then
           let c = inputBuffer ! i;
               magnitude = sqrt (Re c * Re c + Im c * Im c) / real fftSize;
               v = smoothingTimeConstant * (h lastOutputBuffer ! i)
                   + (1.0 - smoothingTimeConstant) * magnitude
           in SmoothingOverTime_loop (h(outputBuffer := (h outputBuffer)[i := v]))
                outputBuffer lastOutputBuffer inputBuffer len smoothingTimeConstant fftSize (Suc i)
         else Inl OutOfBounds)
      else Inr h)"
  by pat_completeness auto
termination
  by (relation "measure (\<lambda>(h, ob, lb, inp, len, c, n, i). len - i)") auto

declare SmoothingOverTime_loop.simps [simp del]

definition SmoothingOverTime ::
  "store \<Rightarrow> buffer \<Rightarrow> buffer \<Rightarrow> complex list \<Rightarrow> nat \<Rightarrow> real \<Rightarrow> nat \<Rightarrow> error + store" where
  "SmoothingOverTime h outputBuffer lastOutputBuffer inputBuffer len smoothingTimeConstant fftSize =
     SmoothingOverTime_loop h outputBuffer lastOutputBuffer inputBuffer len smoothingTimeConstant fftSize 0"

definition LinearToDecibels :: "real \<Rightarrow> real" where
  "LinearToDecibels lin = (if lin = 0 then - 1000 else 20 * log 10 lin)"

text \<open>The C++ conversion \<^verbatim>\<open>(int)x\<close> of a floating value: truncation toward zero.\<close>

definition int_cast :: "real \<Rightarrow> int" where
  "int_cast x = (if x < 0 then \<lceil>x\<rceil> else \<lfloor>x\<rfloor>)"

definition rangeScaleFactor :: real where
  "rangeScaleFactor =
     (if MAX_DECIBELS = MIN_DECIBELS then 1 else 1.0 / (MAX_DECIBELS - MIN_DECIBELS))"

text \<open>
  The body of the first loop of \<^verbatim>\<open>AudioData\<close> after the smoothing, for one band:
  \<^verbatim>\<open>
  float linearValue = m_magnitudeBuffer[i];
  double dbMag = !linearValue ? MIN_DECIBELS : LinearToDecibels(linearValue);
  double scaledValue = UCHAR_MAX * (dbMag - MIN_DECIBELS) * rangeScaleFactor;
  m_audioData[i] = std::max(std::min((int)scaledValue, UCHAR_MAX), 0);
  \<close>
\<close>

definition band_scaledValue :: "real \<Rightarrow> real" where
  "band_scaledValue linearValue =
     (let dbMag = (if linearValue = 0 then MIN_DECIBELS else LinearToDecibels linearValue)
      in real_of_int UCHAR_MAX * (dbMag - MIN_DECIBELS) * rangeScaleFactor)"

definition band_byte :: "real \<Rightarrow> 8 word" where
  "band_byte linearValue =
     word_of_int (max (min (int_cast (band_scaledValue linearValue)) UCHAR_MAX) 0)"

text \<open>
  The body of the second loop of \<^verbatim>\<open>AudioData\<close>:
  \<^verbatim>\<open>float v = (m_pcm[i] + 1.0f) * 128.0f; m_audioData[i + NUM_BANDS] = max(min((int)v, UCHAR_MAX), 0);\<close>
\<close>

definition wave_byte :: "real \<Rightarrow> 8 word" where
  "wave_byte sample =
     (let v = (sample + 1.0) * 128.0
      in word_of_int (max (min (int_cast v) UCHAR_MAX) 0))"

function spectrum_loop :: "real list \<Rightarrow> 8 word list \<Rightarrow> nat \<Rightarrow> error + 8 word list" where
  "spectrum_loop magnitudeBuffer audioData i =
     (if i < NUM_BANDS then
        (if i < length magnitudeBuffer \<and> i < length audioData then
           spectrum_loop magnitudeBuffer (audioData[i := band_byte (magnitudeBuffer ! i)]) (Suc i)
         else Inl OutOfBounds)
      else Inr audioData)"
  by pat_completeness auto
termination
  by (relation "measure (\<lambda>(m, a, i). NUM_BANDS - i)") auto

declare spectrum_loop.simps [simp del]

function waveform_loop :: "real list \<Rightarrow> 8 word list \<Rightarrow> nat \<Rightarrow> error + 8 word list" where
  "waveform_loop pcm audioData i =
     (if i < NUM_BANDS then
        (if i < length pcm \<and> i + NUM_BANDS < length audioData then
           waveform_loop pcm (audioData[i + NUM_BANDS := wave_byte (pcm ! i)]) (Suc i)
         else Inl OutOfBounds)
      else Inr audioData)"
  by pat_completeness auto
termination
  by (relation "measure (\<lambda>(p, a, i). NUM_BANDS - i)") auto

declare waveform_loop.simps [simp del]

text \<open>
  What the specification asks of the spectrum byte, in its own words: the decibel value
  (with the floor for a zero magnitude), clamped to the decibel range, rescaled to
  \<open>[0, 255]\<close>, rounded to the nearest integer, clamped to \<open>[0, 255]\<close>.
\<close>

definition spec_dB :: "real \<Rightarrow> real" where
  "spec_dB magnitude = (if magnitude = 0 then - 100 else 20 * log 10 magnitude)"

definition spec_clamp_dB :: "real \<Rightarrow> real" where
  "spec_clamp_dB d = max (- 100) (min (- 30) d)"

definition spec_rescale :: "real \<Rightarrow> real" where
  "spec_rescale d = 255 * (d + 100) / 70"

definition spec_spectrum_byte :: "real \<Rightarrow> int" where
  "spec_spectrum_byte magnitude =
     max 0 (min 255 (round (spec_rescale (spec_clamp_dB (spec_dB magnitude)))))"

text \<open>The byte the code computes, written in the same shape: truncation instead of rounding.\<close>

definition trunc_spectrum_byte :: "real \<Rightarrow> int" where
  "trunc_spectrum_byte magnitude =
     max 0 (min 255 (int_cast (spec_rescale (spec_clamp_dB (spec_dB magnitude)))))"

subsection \<open>The preset catalog\<close>

record Preset =
  name :: string
  "file" :: string
  channel :: "nat \<Rightarrow> int"

text \<open>The initialiser \<^verbatim>\<open>{a, b, c, d}\<close> of the member \<^verbatim>\<open>int channel[4]\<close>.\<close>

definition channel4 :: "int \<Rightarrow> int \<Rightarrow> int \<Rightarrow> int \<Rightarrow> nat \<Rightarrow> int" where
  "channel4 a b c d i = (if i = 0 then a else if i = 1 then b else if i = 2 then c else d)"

definition g_presets :: "Preset list" where
  "g_presets =
     [\<lparr>name = ''Kodi'', file = ''kodi.frag.glsl'', channel = channel4 99 0 1 (- 1)\<rparr>,
      \<lparr>name = ''Album'', file = ''album.frag.glsl'', channel = channel4 99 0 1 2\<rparr>]"

definition g_fileTextures :: "string list" where
  "g_fileTextures = [''logo.png'', ''noise.png'', ''album.png'']"

subsection \<open>The host and the graphics context\<close>

text \<open>
  What the add-on asks of Kodi, the file system, the image decoder, the shader compiler
  and the GPU. \<open>probe_pixels\<close> is the content of the buffer after
  \<^verbatim>\<open>glReadPixels\<close> in \<^verbatim>\<open>DetermineBitsPrecision\<close>, byte by byte. \<open>build_matrix\<close> and
  \<open>build_display\<close> give the program handle when \<^verbatim>\<open>LoadShaderFiles\<close> and
  \<^verbatim>\<open>CompileAndLink\<close> both succeed.
\<close>

record Host =
  GetSettingBoolean :: "string \<Rightarrow> bool"
  GetSettingInt :: "string \<Rightarrow> 32 word"
  GetSettingString :: "string \<Rightarrow> string"
  GetAddonPath :: "string \<Rightarrow> string"
  GetCacheThumbName :: "string \<Rightarrow> string"
  FileExists :: "string \<Rightarrow> bool"
  TranslateSpecialProtocol :: "string \<Rightarrow> string"
  stbi_load :: "string \<Rightarrow> bool"
  build_matrix :: "string \<Rightarrow> nat option"
  build_display :: "nat option"
  probe_pixels :: "nat \<Rightarrow> 8 word"
  Width :: nat
  Height :: nat

text \<open>
  The graphics context, as far as the claims look at it: texture and framebuffer names
  are handed out by a counter (a name in use is never handed out again), each texture
  name has an image, and the calls that matter are logged in order.
\<close>

datatype image = AudioImage "8 word list" | FileImage string | TargetImage nat nat

datatype gl_call =
    Uniform_iGlobalTime real
  | BindChannel nat nat
  | BindDisplay nat
  | DrawArrays nat
  | ReadPixels

record GL =
  next_texture :: nat
  next_framebuffer :: nat
  images :: "nat \<Rightarrow> image option"
  attachment :: "nat \<Rightarrow> nat option"
  calls :: "gl_call list"

definition glGenTextures :: "GL \<Rightarrow> nat \<times> GL" where
  "glGenTextures g = (next_texture g, g\<lparr>next_texture := Suc (next_texture g)\<rparr>)"

definition glGenFramebuffers :: "GL \<Rightarrow> nat \<times> GL" where
  "glGenFramebuffers g = (next_framebuffer g, g\<lparr>next_framebuffer := Suc (next_framebuffer g)\<rparr>)"

definition glTexImage2D :: "nat \<Rightarrow> image \<Rightarrow> GL \<Rightarrow> GL" where
  "glTexImage2D t img g = g\<lparr>images := (images g)(t := Some img)\<rparr>"

definition glDeleteTextures :: "nat \<Rightarrow> GL \<Rightarrow> GL" where
  "glDeleteTextures t g = g\<lparr>images := (images g)(t := None)\<rparr>"

definition glDeleteFramebuffers :: "nat \<Rightarrow> GL \<Rightarrow> GL" where
  "glDeleteFramebuffers f g = g\<lparr>attachment := (attachment g)(f := None)\<rparr>"

definition glFramebufferTexture2D :: "nat \<Rightarrow> nat \<Rightarrow> GL \<Rightarrow> GL" where
  "glFramebufferTexture2D f t g = g\<lparr>attachment := (attachment g)(f := Some t)\<rparr>"

definition gl_log :: "gl_call list \<Rightarrow> GL \<Rightarrow> GL" where
  "gl_log cs g = g\<lparr>calls := calls g @ cs\<rparr>"

subsection \<open>The object\<close>

record ShaderTexture =
  audio :: bool
  texture :: string

text \<open>
  The members of \<^verbatim>\<open>CVisualizationMatrix\<close> that the functions below read or write. The
  arrays \<^verbatim>\<open>m_shaderTextures[4]\<close> and \<^verbatim>\<open>m_channelTextures[4]\<close> are only indexed by constants
  and by loop counters below 4, and are functions of the index. The members of
  \<^verbatim>\<open>m_state\<close> are the fields \<open>fbwidth\<close>, \<open>fbheight\<close>, \<open>framebuffer_texture\<close> and
  \<open>effect_fb\<close>. \<open>gl\<close> is the graphics context the object draws into and
  \<open>lastpresetidx\<close> the value last stored by \<^verbatim>\<open>kodi::SetSettingInt("lastpresetidx", _)\<close>.
\<close>

record CVisualizationMatrix =
  m_pcm :: "real list"
  m_magnitudeBuffer :: "real list"
  m_audioData :: "8 word list"
  m_needsUpload :: bool
  m_settingsUseOwnshader :: bool
  m_currentPreset :: "32 word"
  m_initialized :: bool
  m_bitsPrecision :: int
  m_samplesPerSec :: int
  m_shaderTextures :: "nat \<Rightarrow> ShaderTexture"
  m_channelTextures :: "nat \<Rightarrow> nat"
  m_usedShaderFile :: string
  m_matrixShader :: nat
  m_displayShader :: nat
  m_initialTime :: int
  fbwidth :: nat
  fbheight :: nat
  framebuffer_texture :: nat
  effect_fb :: nat
  gl :: GL
  lastpresetidx :: "32 word"

subsection \<open>Audio callback\<close>

text \<open>The conversion of an \<^verbatim>\<open>int\<close> argument to \<^verbatim>\<open>size_t\<close>.\<close>

definition size_t_of_int :: "int \<Rightarrow> nat" where
  "size_t_of_int n = nat (n mod 2 ^ 64)"

text \<open>
  The windowed ring \<^verbatim>\<open>in\<close>, and the transform output after \<^verbatim>\<open>out[0].i = 0\<close>.
  \<open>kiss_fft\<close> is the library transform, a parameter.
\<close>

definition AudioData_in :: "real list \<Rightarrow> complex list" where
  "AudioData_in pcm =
     map (\<lambda>i. Complex (BlackmanWindow (pcm ! i) i AUDIO_BUFFER) 0) [0..<AUDIO_BUFFER]"

definition AudioData_bins :: "(complex list \<Rightarrow> complex list) \<Rightarrow> real list \<Rightarrow> complex list" where
  "AudioData_bins kiss_fft pcm =
     (let out = kiss_fft (AudioData_in pcm)
      in out[0 := Complex (Re (out ! 0)) 0])"

definition AudioData ::
  "(complex list \<Rightarrow> complex list) \<Rightarrow> real list \<Rightarrow> int \<Rightarrow> CVisualizationMatrix
     \<Rightarrow> error + CVisualizationMatrix" where
  "AudioData kiss_fft pAudioData iAudioDataLength s =
     (case WriteToBuffer (m_pcm s) pAudioData (size_t_of_int iAudioDataLength) 2 of
        Inl e \<Rightarrow> Inl e
      | Inr pcm \<Rightarrow>
          if length pcm < AUDIO_BUFFER then Inl OutOfBounds
          else
            (case SmoothingOverTime ((\<lambda>b. [])(MagnitudeBuffer := m_magnitudeBuffer s))
                    MagnitudeBuffer MagnitudeBuffer (AudioData_bins kiss_fft pcm)
                    NUM_BANDS SMOOTHING_TIME_CONSTANT AUDIO_BUFFER of
               Inl e \<Rightarrow> Inl e
             | Inr h \<Rightarrow>
                 (case spectrum_loop (h MagnitudeBuffer) (m_audioData s) 0 of
                    Inl e \<Rightarrow> Inl e
                  | Inr a1 \<Rightarrow>
                      (case waveform_loop pcm a1 0 of
                         Inl e \<Rightarrow> Inl e
                       | Inr a2 \<Rightarrow>
                           Inr (s\<lparr>m_pcm := pcm, m_magnitudeBuffer := h MagnitudeBuffer,
                                  m_audioData := a2, m_needsUpload := True\<rparr>)))))"

subsection \<open>Textures and the offscreen target\<close>

definition UnloadTextures_step :: "nat \<Rightarrow> CVisualizationMatrix \<Rightarrow> CVisualizationMatrix" where
  "UnloadTextures_step i s =
     (if m_channelTextures s i \<noteq> 0 then
        s\<lparr>gl := glDeleteTextures (m_channelTextures s i) (gl s),
          m_channelTextures := (m_channelTextures s)(i := 0)\<rparr>
      else s)"

definition UnloadTextures :: "CVisualizationMatrix \<Rightarrow> CVisualizationMatrix" where
  "UnloadTextures s = fold UnloadTextures_step [0..<4] s"

definition UnloadPreset :: "CVisualizationMatrix \<Rightarrow> CVisualizationMatrix" where
  "UnloadPreset s =
     (let s1 = (if framebuffer_texture s \<noteq> 0 then
                  s\<lparr>gl := glDeleteTextures (framebuffer_texture s) (gl s), framebuffer_texture := 0\<rparr>
                else s)
      in if effect_fb s1 \<noteq> 0 then
           s1\<lparr>gl := glDeleteFramebuffers (effect_fb s1) (gl s1), effect_fb := 0\<rparr>
         else s1)"

text \<open>\<^verbatim>\<open>CreateTexture(GLint format, unsigned int w, unsigned int h, const GLvoid* data)\<close>\<close>

definition CreateTexture_data :: "image \<Rightarrow> GL \<Rightarrow> nat \<times> GL" where
  "CreateTexture_data img g = (let (t, g1) = glGenTextures g in (t, glTexImage2D t img g1))"

text \<open>
  \<^verbatim>\<open>CreateTexture(const std::string& file, GLint internalFormat, GLint scaling, GLint repeat)\<close>:
  the zero handle when the decoder returns no image, else a new texture holding it (through
  the overload that takes the decoded bytes, which generates a name and stores the image).
\<close>

definition CreateTexture_file :: "Host \<Rightarrow> string \<Rightarrow> GL \<Rightarrow> nat \<times> GL" where
  "CreateTexture_file host path g =
     (if \<not> stbi_load host path then (0, g)
      else let (t, g1) = glGenTextures g in (t, glTexImage2D t (FileImage path) g1))"

text \<open>
  \<^verbatim>\<open>LoadPreset(const std::string& shaderPath)\<close>. The handle a \<^verbatim>\<open>CShaderProgram\<close> reports
  after a failed build is not fixed by this repository; the model leaves it as it was.
\<close>

definition LoadPreset_shader ::
  "Host \<Rightarrow> int \<Rightarrow> string \<Rightarrow> CVisualizationMatrix \<Rightarrow> CVisualizationMatrix" where
  "LoadPreset_shader host now shaderPath s =
     (let s1 = UnloadPreset s in
      case build_matrix host shaderPath of
        None \<Rightarrow> s1
      | Some pm \<Rightarrow>
          (let s2 = s1\<lparr>m_matrixShader := pm\<rparr> in
           case build_display host of
             None \<Rightarrow> s2
           | Some pd \<Rightarrow>
               (let (t, g1) = glGenTextures (gl s2);
                    g2 = glTexImage2D t (TargetImage (fbwidth s2) (fbheight s2)) g1;
                    (f, g3) = glGenFramebuffers g2;
                    g4 = glFramebufferTexture2D f t g3
                in s2\<lparr>m_displayShader := pd, framebuffer_texture := t, effect_fb := f,
                       gl := g4, m_initialTime := now\<rparr>)))"

subsection \<open>Rendering\<close>

text \<open>
  \<^verbatim>\<open>(1<<m_bitsPrecision)-1\<close> is computed in \<^verbatim>\<open>int\<close>: for a shift count of 31 or more (or
  a negative one) the expression overflows or is undefined.
\<close>

definition time_mask :: "int \<Rightarrow> error + int" where
  "time_mask bits =
     (if 0 \<le> bits \<and> bits < 31 then Inr (push_bit (nat bits) 1 - 1) else Inl UndefinedShift)"

text \<open>
  \<^verbatim>\<open>int64_t intt = now_ms - m_initialTime; if (m_bitsPrecision) intt &= (1<<m_bitsPrecision)-1;\<close>
\<close>

definition RenderTo_intt :: "int \<Rightarrow> CVisualizationMatrix \<Rightarrow> error + int" where
  "RenderTo_intt now s =
     (let intt = now - m_initialTime s in
      if m_bitsPrecision s \<noteq> 0 then
        (case time_mask (m_bitsPrecision s) of
           Inl e \<Rightarrow> Inl e
         | Inr m \<Rightarrow> Inr (intt AND m))
      else Inr intt)"

definition upload_step :: "CVisualizationMatrix \<Rightarrow> nat \<Rightarrow> GL \<Rightarrow> GL" where
  "upload_step s i g =
     (if audio (m_shaderTextures s i) then
        glTexImage2D (m_channelTextures s i) (AudioImage (m_audioData s)) g
      else g)"

text \<open>The upload of the analysis buffer, when one is pending.\<close>

definition RenderTo_upload :: "CVisualizationMatrix \<Rightarrow> CVisualizationMatrix" where
  "RenderTo_upload s =
     (if m_needsUpload s then
        s\<lparr>gl := fold (upload_step s) [0..<4] (gl s), m_needsUpload := False\<rparr>
      else s)"

text \<open>
  The rest of the effect pass: the time uniform, the four channel bindings and the draw
  call into the framebuffer \<open>fb\<close>.
\<close>

definition RenderTo_effect :: "real \<Rightarrow> nat \<Rightarrow> CVisualizationMatrix \<Rightarrow> CVisualizationMatrix" where
  "RenderTo_effect t fb s =
     s\<lparr>gl := gl_log ([Uniform_iGlobalTime t]
                       @ map (\<lambda>i. BindChannel i (m_channelTextures s i)) [0..<4]
                       @ [DrawArrays fb]) (gl s)\<rparr>"

text \<open>The display pass: the offscreen texture on unit 0 and the draw call.\<close>

definition RenderTo_display :: "nat \<Rightarrow> CVisualizationMatrix \<Rightarrow> CVisualizationMatrix" where
  "RenderTo_display fb s =
     s\<lparr>gl := gl_log [BindDisplay (framebuffer_texture s), DrawArrays fb] (gl s)\<rparr>"

text \<open>
  \<^verbatim>\<open>RenderTo(GLuint shader, GLuint effect_fb)\<close>: the effect pass when \<open>shader\<close> is the
  handle of \<^verbatim>\<open>m_matrixShader\<close>, with \<^verbatim>\<open>float t = intt / 1000.0f\<close>, else the display pass.
\<close>

definition RenderTo ::
  "int \<Rightarrow> nat \<Rightarrow> nat \<Rightarrow> CVisualizationMatrix \<Rightarrow> error + CVisualizationMatrix" where
  "RenderTo now shader fb s =
     (if shader = m_matrixShader s then
        (case RenderTo_intt now s of
           Inl e \<Rightarrow> Inl e
         | Inr intt \<Rightarrow> Inr (RenderTo_effect (real_of_int intt / 1000.0) fb (RenderTo_upload s)))
      else Inr (RenderTo_display fb s))"

definition Render :: "int \<Rightarrow> CVisualizationMatrix \<Rightarrow> error + CVisualizationMatrix" where
  "Render now s =
     (if m_initialized s then
        (if fbwidth s \<noteq> 0 \<and> fbheight s \<noteq> 0 then
           (case RenderTo now (m_matrixShader s) (effect_fb s) s of
              Inl e \<Rightarrow> Inl e
            | Inr s1 \<Rightarrow> RenderTo now (m_displayShader s1) 0 s1)
         else RenderTo now (m_matrixShader s) 0 s)
      else Inr s)"

subsection \<open>The precision probe and Launch\<close>

text \<open>
  The counting loop of \<^verbatim>\<open>DetermineBitsPrecision\<close>:
  \<^verbatim>\<open>
  for (int j=0; j<m_state.fbheight; j++) {
    unsigned char c = buffer[4*(j*m_state.fbwidth+(m_state.fbwidth>>1))];
    if (c && !b) bits++;
    b = c;
  }
  \<close>
\<close>

definition probe_step :: "(nat \<Rightarrow> 8 word) \<Rightarrow> nat \<Rightarrow> nat \<Rightarrow> int \<times> 8 word \<Rightarrow> int \<times> 8 word" where
  "probe_step buffer w j st =
     (let c = buffer (4 * (j * w + drop_bit 1 w))
      in (if c \<noteq> 0 \<and> snd st = 0 then fst st + 1 else fst st, c))"

definition probe_count :: "(nat \<Rightarrow> 8 word) \<Rightarrow> nat \<Rightarrow> nat \<Rightarrow> int" where
  "probe_count buffer w h = fst (fold (probe_step buffer w) [0..<h] (0, 0))"

definition DetermineBitsPrecision ::
  "Host \<Rightarrow> int \<Rightarrow> CVisualizationMatrix \<Rightarrow> error + int \<times> CVisualizationMatrix" where
  "DetermineBitsPrecision host now s =
     (let s1 = s\<lparr>fbwidth := 32, fbheight := 26 * 10\<rparr>;
          s2 = LoadPreset_shader host now
                 (GetAddonPath host ''resources/shaders/main_test.frag.glsl'') s1
      in case RenderTo now (m_matrixShader s2) (effect_fb s2) s2 of
           Inl e \<Rightarrow> Inl e
         | Inr s3 \<Rightarrow>
             (let s4 = s3\<lparr>gl := gl_log [ReadPixels] (gl s3)\<rparr>;
                  bits = probe_count (probe_pixels host) (fbwidth s4) (fbheight s4)
              in Inr (bits, UnloadPreset s4)))"

text \<open>The catalog branch of \<^verbatim>\<open>Launch\<close>, for channel \<open>i\<close> of the preset \<open>p\<close>.\<close>

definition Launch_channel ::
  "Host \<Rightarrow> Preset \<Rightarrow> nat \<Rightarrow> (nat \<Rightarrow> ShaderTexture) \<Rightarrow> (nat \<Rightarrow> ShaderTexture)" where
  "Launch_channel host p i st =
     (if channel p i \<ge> 0 \<and> channel p i < int (length g_fileTextures) then
        st(i := (st i)\<lparr>texture :=
                 GetAddonPath host (''resources/'' @ g_fileTextures ! nat (channel p i))\<rparr>)
      else if channel p i = 99 then
        st(i := (st i)\<lparr>audio := True\<rparr>)
      else
        st(i := (st i)\<lparr>texture := [], audio := False\<rparr>))"

text \<open>The settings branch of \<^verbatim>\<open>Launch\<close> (\<open>preset < 0\<close>).\<close>

definition Launch_own :: "Host \<Rightarrow> nat \<Rightarrow> ShaderTexture" where
  "Launch_own host i =
     (if i = 0 then \<lparr>audio = GetSettingBoolean host ''texture0-sound'',
                     texture = GetSettingString host ''texture0''\<rparr>
      else if i = 1 then \<lparr>audio = GetSettingBoolean host ''texture1-sound'',
                     texture = GetSettingString host ''texture1''\<rparr>
      else if i = 2 then \<lparr>audio = GetSettingBoolean host ''texture2-sound'',
                     texture = GetSettingString host ''texture2''\<rparr>
      else \<lparr>audio = GetSettingBoolean host ''texture3-sound'',
             texture = GetSettingString host ''texture3''\<rparr>)"

text \<open>
  \<^verbatim>\<open>if (!m_shaderTextures[i].texture.empty()) m_channelTextures[i] = CreateTexture(file, ...)\<close>
\<close>

definition Launch_file_texture :: "Host \<Rightarrow> nat \<Rightarrow> CVisualizationMatrix \<Rightarrow> CVisualizationMatrix" where
  "Launch_file_texture host i s =
     (if texture (m_shaderTextures s i) \<noteq> [] then
        (let (t, g) = CreateTexture_file host (texture (m_shaderTextures s i)) (gl s)
         in s\<lparr>m_channelTextures := (m_channelTextures s)(i := t), gl := g\<rparr>)
      else s)"

text \<open>
  \<^verbatim>\<open>Launch(int preset)\<close>. Every clock reading inside one call returns \<open>now\<close>. The index
  \<^verbatim>\<open>g_presets[preset]\<close> is checked: outside the catalog it is \<open>Inl OutOfBounds\<close>.
\<close>

definition Launch_select ::
  "Host \<Rightarrow> 32 word \<Rightarrow> CVisualizationMatrix \<Rightarrow> error + CVisualizationMatrix" where
  "Launch_select host preset s =
     (if sint preset < 0 then
        Inr (s\<lparr>m_usedShaderFile := GetSettingString host ''shader'',
               m_shaderTextures := Launch_own host\<rparr>)
      else if nat (sint preset) < length g_presets then
        Inr (s\<lparr>m_usedShaderFile :=
                 GetAddonPath host (''resources/shaders/'' @ file (g_presets ! nat (sint preset))),
               m_shaderTextures :=
                 fold (Launch_channel host (g_presets ! nat (sint preset))) [0..<4]
                   (m_shaderTextures s)\<rparr>)
      else Inl OutOfBounds)"

definition Launch_textures :: "Host \<Rightarrow> CVisualizationMatrix \<Rightarrow> CVisualizationMatrix" where
  "Launch_textures host s =
     (let (t, g) = CreateTexture_data (AudioImage (m_audioData s)) (gl s);
          s3 = s\<lparr>m_channelTextures := (m_channelTextures s)(0 := t), gl := g\<rparr>;
          s4 = Launch_file_texture host 1 s3;
          s5 = Launch_file_texture host 2 s4
      in Launch_file_texture host 3 s5)"

definition Launch ::
  "Host \<Rightarrow> int \<Rightarrow> 32 word \<Rightarrow> CVisualizationMatrix \<Rightarrow> error + CVisualizationMatrix" where
  "Launch host now preset s =
     (case DetermineBitsPrecision host now s of
        Inl e \<Rightarrow> Inl e
      | Inr (bits, s0) \<Rightarrow>
          (case Launch_select host preset (UnloadTextures (s0\<lparr>m_bitsPrecision := max bits 13\<rparr>)) of
             Inl e \<Rightarrow> Inl e
           | Inr s2 \<Rightarrow>
               (let s6 = Launch_textures host s2;
                    s7 = s6\<lparr>fbwidth := Width host, fbheight := Height host\<rparr>
                in Inr (LoadPreset_shader host now (m_usedShaderFile s7) s7))))"

subsection \<open>The interface the player calls\<close>

text \<open>
  The constructor allocates zeroed buffers and reads two settings. The other members
  get the default member initialisers of \<^verbatim>\<open>main.h\<close>, which is not among the sources:
  they are zero, false and empty here, and the graphics context is the parameter \<open>g\<close>.
\<close>

definition construct :: "Host \<Rightarrow> GL \<Rightarrow> CVisualizationMatrix" where
  "construct host g =
     \<lparr>m_pcm = replicate AUDIO_BUFFER 0,
      m_magnitudeBuffer = replicate NUM_BANDS 0,
      m_audioData = replicate AUDIO_BUFFER 0,
      m_needsUpload = False,
      m_settingsUseOwnshader = GetSettingBoolean host ''ownshader'',
      m_currentPreset = (if GetSettingBoolean host ''ownshader'' then - 1
                         else GetSettingInt host ''lastpresetidx''),
      m_initialized = False,
      m_bitsPrecision = 0,
      m_samplesPerSec = 0,
      m_shaderTextures = (\<lambda>i. \<lparr>audio = False, texture = []\<rparr>),
      m_channelTextures = (\<lambda>i. 0),
      m_usedShaderFile = [],
      m_matrixShader = 0,
      m_displayShader = 0,
      m_initialTime = 0,
      fbwidth = 0,
      fbheight = 0,
      framebuffer_texture = 0,
      effect_fb = 0,
      gl = g,
      lastpresetidx = GetSettingInt host ''lastpresetidx''\<rparr>"

definition Start ::
  "Host \<Rightarrow> int \<Rightarrow> int \<Rightarrow> CVisualizationMatrix \<Rightarrow> error + CVisualizationMatrix" where
  "Start host now iSamplesPerSec s =
     (case Launch host now (m_currentPreset s) (s\<lparr>m_samplesPerSec := iSamplesPerSec\<rparr>) of
        Inl e \<Rightarrow> Inl e
      | Inr s1 \<Rightarrow> Inr (s1\<lparr>m_initialized := True\<rparr>))"

definition Stop :: "CVisualizationMatrix \<Rightarrow> CVisualizationMatrix" where
  "Stop s = UnloadTextures (UnloadPreset (s\<lparr>m_initialized := False\<rparr>))"

text \<open>
  \<^verbatim>\<open>x % g_presets.size()\<close> for an \<^verbatim>\<open>int\<close> \<open>x\<close>: \<open>x\<close> is converted to \<^verbatim>\<open>size_t\<close> (sign
  extension), the remainder is unsigned, and the assignment to \<^verbatim>\<open>m_currentPreset\<close>
  converts back to \<^verbatim>\<open>int\<close>.
\<close>

definition mod_presets :: "32 word \<Rightarrow> 32 word" where
  "mod_presets x = ucast ((scast x :: 64 word) mod word_of_nat (length g_presets))"

text \<open>
  The common tail of the three preset functions:
  \<^verbatim>\<open>m_currentPreset = p; Launch(m_currentPreset); kodi::SetSettingInt("lastpresetidx", m_currentPreset);\<close>
\<close>

definition switch_to ::
  "Host \<Rightarrow> int \<Rightarrow> 32 word \<Rightarrow> CVisualizationMatrix \<Rightarrow> error + CVisualizationMatrix" where
  "switch_to host now p s =
     (case Launch host now p (s\<lparr>m_currentPreset := p\<rparr>) of
        Inl e \<Rightarrow> Inl e
      | Inr s1 \<Rightarrow> Inr (s1\<lparr>lastpresetidx := m_currentPreset s1\<rparr>))"

definition NextPreset :: "Host \<Rightarrow> int \<Rightarrow> CVisualizationMatrix \<Rightarrow> error + CVisualizationMatrix" where
  "NextPreset host now s =
     (if \<not> m_settingsUseOwnshader s then
        (if sint (m_currentPreset s) = 2 ^ 31 - 1 then Inl SignedOverflow
         else switch_to host now (mod_presets (m_currentPreset s + 1)) s)
      else Inr s)"

definition PrevPreset :: "Host \<Rightarrow> int \<Rightarrow> CVisualizationMatrix \<Rightarrow> error + CVisualizationMatrix" where
  "PrevPreset host now s =
     (if \<not> m_settingsUseOwnshader s then
        (if sint (m_currentPreset s) = - (2 ^ 31) then Inl SignedOverflow
         else switch_to host now (mod_presets (m_currentPreset s - 1)) s)
      else Inr s)"

definition LoadPreset ::
  "Host \<Rightarrow> int \<Rightarrow> 32 word \<Rightarrow> CVisualizationMatrix \<Rightarrow> error + CVisualizationMatrix" where
  "LoadPreset host now select s =
     (if \<not> m_settingsUseOwnshader s then switch_to host now (mod_presets select) s
      else Inr s)"

definition GetActivePreset :: "CVisualizationMatrix \<Rightarrow> 32 word" where
  "GetActivePreset s = m_currentPreset s"

text \<open>
  \<^verbatim>\<open>UpdateAlbumart\<close>. \<^verbatim>\<open>thumb.c_str()[0]\<close> of an empty string is the terminating zero
  character.
\<close>

definition special_path :: "Host \<Rightarrow> string \<Rightarrow> string" where
  "special_path host albumart =
     (let thumb = take 8 (GetCacheThumbName host albumart)
      in ''special://thumbnails/'' @ [if thumb = [] then CHR 0x00 else hd thumb] @ ''/'' @ thumb)"

definition UpdateAlbumart_load ::
  "Host \<Rightarrow> string \<Rightarrow> CVisualizationMatrix \<Rightarrow> CVisualizationMatrix" where
  "UpdateAlbumart_load host path s =
     (let (t, g) = CreateTexture_file host (TranslateSpecialProtocol host path) (gl s)
      in s\<lparr>m_channelTextures := (m_channelTextures s)(3 := t), gl := g\<rparr>)"

definition UpdateAlbumart ::
  "Host \<Rightarrow> string \<Rightarrow> CVisualizationMatrix \<Rightarrow> bool \<times> CVisualizationMatrix" where
  "UpdateAlbumart host albumart s =
     (let special = special_path host albumart;
          s1 = (if FileExists host (special @ ''.png'') then
                  UpdateAlbumart_load host (special @ ''.png'') s
                else if FileExists host (special @ ''.jpg'') then
                  UpdateAlbumart_load host (special @ ''.jpg'') s
                else s)
      in (if m_channelTextures s1 3 = 0 then (False, s1) else (True, s1)))"

subsection \<open>Sequences of calls\<close>

datatype event =
    EvRender
  | EvNextPreset
  | EvPrevPreset
  | EvLoadPreset "32 word"

definition step ::
  "Host \<Rightarrow> int \<times> event \<Rightarrow> CVisualizationMatrix \<Rightarrow> error + CVisualizationMatrix" where
  "step host te s =
     (case snd te of
        EvRender \<Rightarrow> Render (fst te) s
      | EvNextPreset \<Rightarrow> NextPreset host (fst te) s
      | EvPrevPreset \<Rightarrow> PrevPreset host (fst te) s
      | EvLoadPreset select \<Rightarrow> LoadPreset host (fst te) select s)"

fun run ::
  "Host \<Rightarrow> (int \<times> event) list \<Rightarrow> CVisualizationMatrix \<Rightarrow> error + CVisualizationMatrix" where
  "run host [] s = Inr s"
| "run host (te # tes) s =
     (case step host te s of
        Inl e \<Rightarrow> Inl e
      | Inr s1 \<Rightarrow> run host tes s1)"

text \<open>How often the probe has read pixels back (it is the only caller of \<^verbatim>\<open>glReadPixels\<close>).\<close>

definition probe_runs :: "CVisualizationMatrix \<Rightarrow> nat" where
  "probe_runs s = length (filter (\<lambda>c. c = ReadPixels) (calls (gl s)))"

definition is_switch :: "int \<times> event \<Rightarrow> bool" where
  "is_switch te = (case snd te of EvRender \<Rightarrow> False | _ \<Rightarrow> True)"

text \<open>
  What the specification asks of the smoothing, in its own words:
  \<open>smoothed[k] = c * previous[k] + (1 - c) * magnitude[k]\<close> with
  \<open>magnitude[k] = |bin[k]| / N\<close>.
\<close>

definition spec_smoothed :: "real \<Rightarrow> nat \<Rightarrow> real list \<Rightarrow> complex list \<Rightarrow> nat \<Rightarrow> real" where
  "spec_smoothed c n previous bins k = c * (previous ! k) + (1 - c) * (cmod (bins ! k) / real n)"

subsection \<open>Conditions on states and hosts\<close>

text \<open>
  The precision is one for which \<^verbatim>\<open>(1<<m_bitsPrecision)-1\<close> is defined; the probe frame
  of the host shows fewer than 31 rising edges in the column the probe reads; the
  current preset is an index of the catalog.
\<close>

definition time_ok :: "CVisualizationMatrix \<Rightarrow> bool" where
  "time_ok s = (0 \<le> m_bitsPrecision s \<and> m_bitsPrecision s < 31)"

definition probe_ok :: "Host \<Rightarrow> bool" where
  "probe_ok host = (probe_count (probe_pixels host) 32 (26 * 10) < 31)"

definition preset_in_range :: "CVisualizationMatrix \<Rightarrow> bool" where
  "preset_in_range s =
     (0 \<le> sint (m_currentPreset s) \<and> sint (m_currentPreset s) < int (length g_presets))"

text \<open>No nonzero channel handle is the handle of the offscreen texture.\<close>

definition channels_apart :: "CVisualizationMatrix \<Rightarrow> bool" where
  "channels_apart s =
     list_all (\<lambda>j. m_channelTextures s j = 0 \<or> m_channelTextures s j \<noteq> framebuffer_texture s)
       [0..<4]"

subsection \<open>A host and a graphics context for examples\<close>

text \<open>
  A host with no settings and no files, whose shaders build and whose probe frame is
  black, and a graphics context in which no name has been handed out yet.
\<close>

definition idle_host :: Host where
  "idle_host =
     \<lparr>GetSettingBoolean = (\<lambda>k. False),
      GetSettingInt = (\<lambda>k. 0),
      GetSettingString = (\<lambda>k. []),
      GetAddonPath = (\<lambda>p. ''/addon/'' @ p),
      GetCacheThumbName = (\<lambda>a. ''0a1b2c3d.tbn''),
      FileExists = (\<lambda>p. False),
      TranslateSpecialProtocol = (\<lambda>p. p),
      stbi_load = (\<lambda>p. False),
      build_matrix = (\<lambda>p. Some 1),
      build_display = Some 2,
      probe_pixels = (\<lambda>i. 0),
      Width = 1920,
      Height = 1080\<rparr>"

definition fresh_gl :: GL where
  "fresh_gl =
     \<lparr>next_texture = 1,
      next_framebuffer = 1,
      images = (\<lambda>t. None),
      attachment = (\<lambda>f. None),
      calls = []\<rparr>"

text \<open>A host whose probe frame alternates between a black and a white row.\<close>

definition striped_host :: Host where
  "striped_host = idle_host\<lparr>probe_pixels := (\<lambda>i. if odd (i div 128) then 255 else 0)\<rparr>"

text \<open>
  A host on which the diagnostic shader \<^verbatim>\<open>main_test.frag.glsl\<close> does not build and the
  preset shaders do. \<^verbatim>\<open>LoadPreset\<close> then returns before it creates the offscreen target,
  \<^verbatim>\<open>effect_fb\<close> stays 0, and the probe draws to and reads back the default framebuffer:
  what is on screen, here alternating black and white rows.
\<close>

definition broken_probe_host :: Host where
  "broken_probe_host =
     striped_host\<lparr>build_matrix :=
       (\<lambda>p. if p = ''/addon/resources/shaders/main_test.frag.glsl'' then None else Some 1)\<rparr>"

section \<open>Properties\<close>

subsection \<open>Decibel scaling\<close>

lemma int_cast_mono: "x \<le> y \<Longrightarrow> int_cast x \<le> int_cast y"
proof -
  assume xy: "x \<le> y"
  have a: "\<lfloor>x\<rfloor> \<le> \<lfloor>y\<rfloor>" using xy by (rule floor_mono)
  have b: "\<lceil>x\<rceil> \<le> \<lceil>y\<rceil>" using xy by (rule ceiling_mono)
  have c: "x < 0 \<Longrightarrow> \<not> y < 0 \<Longrightarrow> \<lceil>x\<rceil> \<le> \<lfloor>y\<rfloor>"
  proof -
    assume "x < 0" "\<not> y < 0"
    then have "\<lceil>x\<rceil> \<le> 0" "0 \<le> \<lfloor>y\<rfloor>" by simp_all
    then show ?thesis by linarith
  qed
  show ?thesis using a b c xy unfolding int_cast_def by auto
qed

lemma rangeScaleFactor_val: "rangeScaleFactor = 1 / 70"
  by (simp add: rangeScaleFactor_def MAX_DECIBELS_def MIN_DECIBELS_def)

lemma band_scaledValue_pos:
  "0 < m \<Longrightarrow> band_scaledValue m = 255 * (20 * log 10 m + 100) / 70"
  by (simp add: band_scaledValue_def LinearToDecibels_def rangeScaleFactor_val
      MIN_DECIBELS_def UCHAR_MAX_def)

lemma band_scaledValue_zero: "band_scaledValue 0 = 0"
  by (simp add: band_scaledValue_def MIN_DECIBELS_def)

lemma band_scaledValue_mono:
  "0 < m1 \<Longrightarrow> m1 \<le> m2 \<Longrightarrow> band_scaledValue m1 \<le> band_scaledValue m2"
  by (simp add: band_scaledValue_pos)

lemma uint_clamped:
  "uint (word_of_int (max (min x UCHAR_MAX) 0) :: 8 word) = max (min x UCHAR_MAX) 0"
  by (simp add: uint_word_of_int UCHAR_MAX_def)

lemma uint_band_byte: "uint (band_byte m) = max (min (int_cast (band_scaledValue m)) 255) 0"
  unfolding band_byte_def uint_clamped by (simp add: UCHAR_MAX_def)

lemma log10_inverse_pow: "log 10 (1 / 10 ^ n) = - real n"
  by (simp add: log_divide)

lemma band_scaledValue_1e3: "band_scaledValue (1 / 1000) = 1020 / 7"
  using band_scaledValue_pos[of "1 / 10 ^ 3"] log10_inverse_pow[of 3] by simp

lemma band_scaledValue_1e2: "band_scaledValue (1 / 100) = 1530 / 7"
  using band_scaledValue_pos[of "1 / 10 ^ 2"] log10_inverse_pow[of 2] by simp

lemma band_scaledValue_1e4: "band_scaledValue (1 / 10000) = 510 / 7"
  using band_scaledValue_pos[of "1 / 10 ^ 4"] log10_inverse_pow[of 4] by simp

lemma band_byte_1e3: "uint (band_byte (1 / 1000)) = 145"
  unfolding uint_band_byte band_scaledValue_1e3 by (simp add: int_cast_def)

lemma band_byte_1e2: "uint (band_byte (1 / 100)) = 218"
  unfolding uint_band_byte band_scaledValue_1e2 by (simp add: int_cast_def)

lemma band_byte_1e4: "uint (band_byte (1 / 10000)) = 72"
  unfolding uint_band_byte band_scaledValue_1e4 by (simp add: int_cast_def)

text \<open>
  The code has no clamp on the decibel value; the clamp of the integer does the same,
  because the ends of the decibel range are sent to 0 and 255 exactly.
\<close>

lemma band_byte_trunc: "0 \<le> m \<Longrightarrow> uint (band_byte m) = trunc_spectrum_byte m"
proof (cases "m = 0")
  case True
  then show ?thesis
    by (simp add: uint_band_byte band_scaledValue_zero trunc_spectrum_byte_def spec_dB_def
        spec_clamp_dB_def spec_rescale_def int_cast_def)
next
  case False
  assume "0 \<le> m"
  with False have pos: "0 < m" by simp
  define d where "d = 20 * log 10 m"
  have s: "band_scaledValue m = spec_rescale d"
    using pos by (simp add: band_scaledValue_pos d_def spec_rescale_def)
  have sd: "spec_dB m = d" using pos by (simp add: spec_dB_def d_def)
  consider (lo) "d < - 100" | (hi) "- 30 < d" | (mid) "- 100 \<le> d" "d \<le> - 30" by linarith
  then show ?thesis
  proof cases
    case lo
    then have "spec_rescale d < 0" by (simp add: spec_rescale_def)
    then have "int_cast (spec_rescale d) \<le> 0" by (simp add: int_cast_def)
    moreover have "spec_clamp_dB d = - 100" using lo by (simp add: spec_clamp_dB_def)
    ultimately show ?thesis
      by (simp add: uint_band_byte s sd trunc_spectrum_byte_def spec_rescale_def int_cast_def)
  next
    case hi
    then have "255 \<le> spec_rescale d" by (simp add: spec_rescale_def)
    then have "255 \<le> int_cast (spec_rescale d)" by (simp add: int_cast_def le_floor_iff)
    moreover have "spec_clamp_dB d = - 30" using hi by (simp add: spec_clamp_dB_def)
    ultimately show ?thesis
      by (simp add: uint_band_byte s sd trunc_spectrum_byte_def spec_rescale_def int_cast_def)
  next
    case mid
    then have "spec_clamp_dB d = d" by (simp add: spec_clamp_dB_def)
    then show ?thesis
      by (simp add: uint_band_byte s sd trunc_spectrum_byte_def max.commute min.commute)
  qed
qed

text \<open>
  Claim C9. The map from a linear magnitude to the spectrum byte is monotone: for
  magnitudes \<open>0 < m1 < m2\<close> the byte \<^verbatim>\<open>AudioData\<close> stores for \<open>m1\<close> is at most the byte
  it stores for \<open>m2\<close>.
\<close>

theorem band_byte_monotone:
  "0 < m1 \<Longrightarrow> m1 < m2 \<Longrightarrow> uint (band_byte m1) \<le> uint (band_byte m2)"
proof -
  assume "0 < m1" "m1 < m2"
  then have "band_scaledValue m1 \<le> band_scaledValue m2"
    by (simp add: band_scaledValue_mono)
  then have "int_cast (band_scaledValue m1) \<le> int_cast (band_scaledValue m2)"
    by (rule int_cast_mono)
  then show ?thesis unfolding uint_band_byte by linarith
qed

theorem band_byte_monotone_witness:
  "(0::real) < 1 / 1000 \<and> (1 / 1000 :: real) < 1 / 100
   \<and> uint (band_byte (1 / 1000)) \<le> uint (band_byte (1 / 100))
   \<and> uint (band_byte (1 / 1000)) = 145 \<and> uint (band_byte (1 / 100)) = 218"
  using band_byte_monotone[of "1 / 1000" "1 / 100"] band_byte_1e3 band_byte_1e2 by simp

subsection \<open>Down-mix and ring buffer\<close>

lemma Mix_sum_eq:
  "i + channels \<le> length source \<Longrightarrow> j \<le> channels \<Longrightarrow>
   Mix_sum source i channels j v = Inr (v + (\<Sum>k = j..<channels. source ! (i + k)))"
proof (induction source i channels j v rule: Mix_sum.induct)
  case (1 source i channels j v)
  show ?case
  proof (cases "j < channels")
    case True
    then have inb: "i + j < length source" using "1.prems" by simp
    have "Mix_sum source i channels j v
        = Mix_sum source i channels (Suc j) (v + source ! (i + j))"
      using True inb by (simp add: Mix_sum.simps[of source i channels j v])
    also have "\<dots> = Inr (v + source ! (i + j) + (\<Sum>k = Suc j..<channels. source ! (i + k)))"
      using "1.IH"[OF True inb] "1.prems" True by simp
    also have "\<dots> = Inr (v + (\<Sum>k = j..<channels. source ! (i + k)))"
      using True by (simp add: sum.atLeast_Suc_lessThan)
    finally show ?thesis .
  next
    case False
    then have "j = channels" using "1.prems" by simp
    then show ?thesis by (simp add: Mix_sum.simps[of source i channels channels v])
  qed
qed

lemma Mix_sum_frame:
  "s0 + (j + 1) * channels \<le> length source \<Longrightarrow> 0 < channels \<Longrightarrow>
   Mix_sum source (s0 + j * channels) channels 0 0
     = Inr (spec_mono_frame (drop s0 source) channels j * real channels)"
proof -
  assume a: "s0 + (j + 1) * channels \<le> length source" and c: "0 < channels"
  have b: "s0 + j * channels + channels \<le> length source" using a by (simp add: algebra_simps)
  have "\<And>k. k < channels \<Longrightarrow>
      drop s0 source ! (j * channels + k) = source ! (s0 + j * channels + k)"
    using b by (simp add: add.assoc)
  then show ?thesis
    using c by (simp add: Mix_sum_eq[OF b] spec_mono_frame_def)
qed

text \<open>With two channels the destination index \<open>i / 2\<close> is the frame index.\<close>

lemma Mix_loop_two:
  "s0 + 2 * frames \<le> length source \<Longrightarrow> d0 + frames \<le> length destination \<Longrightarrow> j \<le> frames \<Longrightarrow>
   Mix_loop destination d0 source s0 (frames * 2) 2 (j * 2)
     = Inr (take (d0 + j) destination
            @ map (spec_mono_frame (drop s0 source) 2) [j..<frames]
            @ drop (d0 + frames) destination)"
proof (induction "frames - j" arbitrary: j destination)
  case 0
  then have "j = frames" by simp
  then show ?case
    by (simp add: Mix_loop.simps[of destination d0 source s0 "frames * 2" 2 "frames * 2"])
next
  case (Suc n)
  then have jlt: "j < frames" by simp
  let ?v = "spec_mono_frame (drop s0 source) 2 j"
  let ?d = "destination[d0 + j := ?v]"
  have sum: "Mix_sum source (s0 + j * 2) 2 0 0 = Inr (?v * real 2)"
    using Mix_sum_frame[of s0 j 2 source] jlt Suc.prems by simp
  have inb: "d0 + j < length destination" using jlt Suc.prems by simp
  have step: "Mix_loop destination d0 source s0 (frames * 2) 2 (j * 2)
      = Mix_loop ?d d0 source s0 (frames * 2) 2 (Suc j * 2)"
    using jlt inb sum
    by (simp add: Mix_loop.simps[of destination d0 source s0 "frames * 2" 2 "j * 2"])
  have ih: "Mix_loop ?d d0 source s0 (frames * 2) 2 (Suc j * 2)
      = Inr (take (d0 + Suc j) ?d @ map (spec_mono_frame (drop s0 source) 2) [Suc j..<frames]
             @ drop (d0 + frames) ?d)"
    using Suc.hyps(1)[of "Suc j" ?d] Suc.hyps(2) Suc.prems jlt by simp
  have t: "take (d0 + Suc j) ?d = take (d0 + j) destination @ [?v]"
    using inb by (simp add: take_Suc_conv_app_nth)
  have dr: "drop (d0 + frames) ?d = drop (d0 + frames) destination"
    using jlt by simp
  have u: "[j..<frames] = j # [Suc j..<frames]" using jlt by (simp add: upt_conv_Cons)
  show ?case unfolding step ih t dr u by simp
qed

lemma Mix_two:
  "s0 + 2 * frames \<le> length source \<Longrightarrow> d0 + frames \<le> length destination \<Longrightarrow>
   Mix destination d0 source s0 frames 2
     = Inr (take d0 destination
            @ map (spec_mono_frame (drop s0 source) 2) [0..<frames]
            @ drop (d0 + frames) destination)"
  unfolding Mix_def using Mix_loop_two[of s0 frames source d0 destination 0] by simp

lemma WriteToBuffer_two_full:
  assumes "AUDIO_BUFFER \<le> len div 2" "len \<le> length input" "length pcm = AUDIO_BUFFER"
  shows "WriteToBuffer pcm input len 2
     = Inr (map (spec_mono_frame (drop (len div 2 - AUDIO_BUFFER) input) 2) [0..<AUDIO_BUFFER])"
proof -
  have "len div 2 - AUDIO_BUFFER + 2 * AUDIO_BUFFER \<le> length input"
    using assms by linarith
  then show ?thesis
    using assms Mix_two[of "len div 2 - AUDIO_BUFFER" AUDIO_BUFFER input 0 pcm]
    by (simp add: WriteToBuffer_def)
qed

lemma WriteToBuffer_two_part:
  assumes "len div 2 < AUDIO_BUFFER" "len \<le> length input" "length pcm = AUDIO_BUFFER"
  shows "WriteToBuffer pcm input len 2
     = Inr (drop (len div 2) pcm @ map (spec_mono_frame input 2) [0..<len div 2])"
proof -
  let ?f = "len div 2"
  let ?k = "AUDIO_BUFFER - ?f"
  have a: "0 + 2 * ?f \<le> length input" using assms by linarith
  have l: "length (memmove_front pcm ?f ?k) = AUDIO_BUFFER"
    using assms by (simp add: memmove_front_def)
  have b: "?k + ?f \<le> length (memmove_front pcm ?f ?k)" using l assms by simp
  have t: "take ?k (memmove_front pcm ?f ?k) = drop ?f pcm"
    using assms by (simp add: memmove_front_def)
  have d: "drop (?k + ?f) (memmove_front pcm ?f ?k) = []" using l assms by simp
  have m: "Mix (memmove_front pcm ?f ?k) ?k input 0 ?f 2
      = Inr (drop ?f pcm @ map (spec_mono_frame input 2) [0..<?f])"
    using Mix_two[OF a b] unfolding t d by simp
  show ?thesis
    using assms(1) m by (simp add: WriteToBuffer_def Let_def)
qed

lemma WriteToBuffer_two_length:
  assumes "len \<le> length input" "length pcm = AUDIO_BUFFER"
  shows "\<exists>r. WriteToBuffer pcm input len 2 = Inr r \<and> length r = AUDIO_BUFFER"
proof (cases "AUDIO_BUFFER \<le> len div 2")
  case True
  then show ?thesis using WriteToBuffer_two_full[OF True assms] by simp
next
  case False
  then have "len div 2 < AUDIO_BUFFER" by simp
  then show ?thesis using WriteToBuffer_two_part[OF _ assms] assms by simp
qed

subsection \<open>Smoothing and the output buffer\<close>

lemma spectrum_loop_eq:
  "NUM_BANDS \<le> length mags \<Longrightarrow> NUM_BANDS \<le> length ad \<Longrightarrow> i \<le> NUM_BANDS \<Longrightarrow>
   spectrum_loop mags ad i
     = Inr (take i ad @ map (\<lambda>k. band_byte (mags ! k)) [i..<NUM_BANDS] @ drop NUM_BANDS ad)"
proof (induction mags ad i rule: spectrum_loop.induct)
  case (1 mags ad i)
  show ?case
  proof (cases "i < NUM_BANDS")
    case True
    let ?a = "ad[i := band_byte (mags ! i)]"
    have inb: "i < length mags \<and> i < length ad" using True "1.prems" by simp
    have step: "spectrum_loop mags ad i = spectrum_loop mags ?a (Suc i)"
      using True inb by (simp add: spectrum_loop.simps[of mags ad i])
    have ih: "spectrum_loop mags ?a (Suc i)
        = Inr (take (Suc i) ?a @ map (\<lambda>k. band_byte (mags ! k)) [Suc i..<NUM_BANDS] @ drop NUM_BANDS ?a)"
      using "1.IH"[OF True inb] "1.prems" True by simp
    have t: "take (Suc i) ?a = take i ad @ [band_byte (mags ! i)]"
      using inb by (simp add: take_Suc_conv_app_nth)
    have d: "drop NUM_BANDS ?a = drop NUM_BANDS ad" using True by simp
    have u: "[i..<NUM_BANDS] = i # [Suc i..<NUM_BANDS]" using True by (simp add: upt_conv_Cons)
    show ?thesis unfolding step ih t d u by simp
  next
    case False
    then have "i = NUM_BANDS" using "1.prems" by simp
    then show ?thesis by (simp add: spectrum_loop.simps[of mags ad NUM_BANDS])
  qed
qed

lemma waveform_loop_eq:
  "NUM_BANDS \<le> length pcm \<Longrightarrow> NUM_BANDS + NUM_BANDS \<le> length ad \<Longrightarrow> i \<le> NUM_BANDS \<Longrightarrow>
   waveform_loop pcm ad i
     = Inr (take (NUM_BANDS + i) ad @ map (\<lambda>k. wave_byte (pcm ! k)) [i..<NUM_BANDS]
            @ drop (NUM_BANDS + NUM_BANDS) ad)"
proof (induction pcm ad i rule: waveform_loop.induct)
  case (1 pcm ad i)
  show ?case
  proof (cases "i < NUM_BANDS")
    case True
    let ?a = "ad[i + NUM_BANDS := wave_byte (pcm ! i)]"
    have inb: "i < length pcm \<and> i + NUM_BANDS < length ad" using True "1.prems" by simp
    have step: "waveform_loop pcm ad i = waveform_loop pcm ?a (Suc i)"
      using True inb by (simp add: waveform_loop.simps[of pcm ad i])
    have ih: "waveform_loop pcm ?a (Suc i)
        = Inr (take (NUM_BANDS + Suc i) ?a @ map (\<lambda>k. wave_byte (pcm ! k)) [Suc i..<NUM_BANDS]
               @ drop (NUM_BANDS + NUM_BANDS) ?a)"
      using "1.IH"[OF True inb] "1.prems" True by simp
    have t: "take (NUM_BANDS + Suc i) ?a = take (NUM_BANDS + i) ad @ [wave_byte (pcm ! i)]"
      using inb by (simp add: take_Suc_conv_app_nth add.commute)
    have d: "drop (NUM_BANDS + NUM_BANDS) ?a = drop (NUM_BANDS + NUM_BANDS) ad" using True by simp
    have u: "[i..<NUM_BANDS] = i # [Suc i..<NUM_BANDS]" using True by (simp add: upt_conv_Cons)
    show ?thesis unfolding step ih t d u by simp
  next
    case False
    then have "i = NUM_BANDS" using "1.prems" by simp
    then show ?thesis by (simp add: waveform_loop.simps[of pcm ad NUM_BANDS])
  qed
qed

lemma smoothed_raw:
  "c * (prev ! i) + (1.0 - c) * (sqrt (Re (inp ! i) * Re (inp ! i) + Im (inp ! i) * Im (inp ! i)) / real n)
     = spec_smoothed c n prev inp i"
  by (simp add: spec_smoothed_def cmod_def power2_eq_square)

lemma smoothed_raw_simp:
  "c * prev ! i + (1 - c) * sqrt (Re (inp ! i) * Re (inp ! i) + Im (inp ! i) * Im (inp ! i)) / real n
     = spec_smoothed c n prev inp i"
  by (simp add: spec_smoothed_def cmod_def power2_eq_square)

lemma SmoothingOverTime_loop_eq:
  "len \<le> length inp \<Longrightarrow> len \<le> length (h lb) \<Longrightarrow> len \<le> length (h ob) \<Longrightarrow> i \<le> len \<Longrightarrow>
   SmoothingOverTime_loop h ob lb inp len c n i
     = Inr (h(ob := take i (h ob) @ map (spec_smoothed c n (h lb) inp) [i..<len] @ drop len (h ob)))"
proof (induction h ob lb inp len c n i rule: SmoothingOverTime_loop.induct)
  case (1 h ob lb inp len c n i)
  show ?case
  proof (cases "i < len")
    case True
    let ?v = "spec_smoothed c n (h lb) inp i"
    let ?h = "h(ob := (h ob)[i := ?v])"
    have inb: "i < length inp \<and> i < length (h lb) \<and> i < length (h ob)"
      using True "1.prems" by simp
    have step: "SmoothingOverTime_loop h ob lb inp len c n i
        = SmoothingOverTime_loop ?h ob lb inp len c n (Suc i)"
      using True inb
      by (simp add: SmoothingOverTime_loop.simps[of h ob lb inp len c n i] Let_def smoothed_raw_simp)
    have lens: "len \<le> length (?h lb)" "len \<le> length (?h ob)" "Suc i \<le> len"
      using True "1.prems" by auto
    have ih: "SmoothingOverTime_loop ?h ob lb inp len c n (Suc i)
        = Inr (?h(ob := take (Suc i) (?h ob) @ map (spec_smoothed c n (?h lb) inp) [Suc i..<len] @ drop len (?h ob)))"
      using "1.IH"[OF True inb refl refl refl, unfolded smoothed_raw, OF "1.prems"(1) lens] .
    have t: "take (Suc i) (?h ob) = take i (h ob) @ [?v]"
      using inb by (simp add: take_Suc_conv_app_nth)
    have d: "drop len (?h ob) = drop len (h ob)" using True by simp
    have m: "map (spec_smoothed c n (?h lb) inp) [Suc i..<len] = map (spec_smoothed c n (h lb) inp) [Suc i..<len]"
      by (rule map_cong) (auto simp: spec_smoothed_def)
    have u: "[i..<len] = i # [Suc i..<len]" using True by (simp add: upt_conv_Cons)
    show ?thesis unfolding step ih t d m u by (simp add: fun_eq_iff)
  next
    case False
    then have "i = len" using "1.prems" by simp
    then show ?thesis
      by (simp add: SmoothingOverTime_loop.simps[of h ob lb inp len c n len])
  qed
qed


lemma SmoothingOverTime_alias:
  "len \<le> length inp \<Longrightarrow> len \<le> length prev \<Longrightarrow>
   SmoothingOverTime ((\<lambda>b. [])(MagnitudeBuffer := prev)) MagnitudeBuffer MagnitudeBuffer inp len c n
     = Inr ((\<lambda>b. [])(MagnitudeBuffer := map (spec_smoothed c n prev inp) [0..<len] @ drop len prev))"
  unfolding SmoothingOverTime_def
  using SmoothingOverTime_loop_eq[of len inp "(\<lambda>b. [])(MagnitudeBuffer := prev)" MagnitudeBuffer MagnitudeBuffer 0 c n]
  by simp

lemma NUM_BANDS_le: "NUM_BANDS \<le> AUDIO_BUFFER" "NUM_BANDS + NUM_BANDS = AUDIO_BUFFER"
  by (simp_all add: NUM_BANDS_def AUDIO_BUFFER_def)

lemma length_AudioData_bins:
  "\<forall>xs. length (kiss_fft xs) = length xs \<Longrightarrow> length (AudioData_bins kiss_fft pcm) = AUDIO_BUFFER"
  by (simp add: AudioData_bins_def AudioData_in_def Let_def)

lemma AudioData_eq:
  assumes pcm: "length (m_pcm s) = AUDIO_BUFFER"
    and mag: "length (m_magnitudeBuffer s) = NUM_BANDS"
    and aud: "length (m_audioData s) = AUDIO_BUFFER"
    and fft: "\<forall>xs. length (kiss_fft xs) = length xs"
    and len: "size_t_of_int iAudioDataLength \<le> length pAudioData"
  shows "\<exists>pcm. WriteToBuffer (m_pcm s) pAudioData (size_t_of_int iAudioDataLength) 2 = Inr pcm
     \<and> length pcm = AUDIO_BUFFER
     \<and> AudioData kiss_fft pAudioData iAudioDataLength s
       = Inr (s\<lparr>m_pcm := pcm,
               m_magnitudeBuffer :=
                 map (spec_smoothed SMOOTHING_TIME_CONSTANT AUDIO_BUFFER (m_magnitudeBuffer s)
                        (AudioData_bins kiss_fft pcm)) [0..<NUM_BANDS],
               m_audioData :=
                 map (\<lambda>k. band_byte (spec_smoothed SMOOTHING_TIME_CONSTANT AUDIO_BUFFER
                        (m_magnitudeBuffer s) (AudioData_bins kiss_fft pcm) k)) [0..<NUM_BANDS]
                 @ map (\<lambda>k. wave_byte (pcm ! k)) [0..<NUM_BANDS],
               m_needsUpload := True\<rparr>)"
proof -
  obtain pcm where w: "WriteToBuffer (m_pcm s) pAudioData (size_t_of_int iAudioDataLength) 2 = Inr pcm"
    and lp: "length pcm = AUDIO_BUFFER"
    using WriteToBuffer_two_length[OF len pcm] by blast
  let ?bins = "AudioData_bins kiss_fft pcm"
  let ?m = "map (spec_smoothed SMOOTHING_TIME_CONSTANT AUDIO_BUFFER (m_magnitudeBuffer s) ?bins) [0..<NUM_BANDS]"
  have lb: "NUM_BANDS \<le> length ?bins" using length_AudioData_bins[OF fft] NUM_BANDS_le by simp
  have sm: "SmoothingOverTime ((\<lambda>b. [])(MagnitudeBuffer := m_magnitudeBuffer s))
              MagnitudeBuffer MagnitudeBuffer ?bins NUM_BANDS SMOOTHING_TIME_CONSTANT AUDIO_BUFFER
            = Inr ((\<lambda>b. [])(MagnitudeBuffer := ?m))"
    using SmoothingOverTime_alias[OF lb, of "m_magnitudeBuffer s"] mag by simp
  have sp: "spectrum_loop ?m (m_audioData s) 0
      = Inr (map (\<lambda>k. band_byte (?m ! k)) [0..<NUM_BANDS] @ drop NUM_BANDS (m_audioData s))"
    using spectrum_loop_eq[of ?m "m_audioData s" 0] aud NUM_BANDS_le by simp
  let ?a1 = "map (\<lambda>k. band_byte (?m ! k)) [0..<NUM_BANDS] @ drop NUM_BANDS (m_audioData s)"
  have la1: "length ?a1 = AUDIO_BUFFER" using aud NUM_BANDS_le by simp
  have wv: "waveform_loop pcm ?a1 0
      = Inr (take NUM_BANDS ?a1 @ map (\<lambda>k. wave_byte (pcm ! k)) [0..<NUM_BANDS])"
    using waveform_loop_eq[of pcm ?a1 0] la1 lp NUM_BANDS_le by simp
  have m1: "map (\<lambda>k. band_byte (?m ! k)) [0..<NUM_BANDS]
      = map (\<lambda>k. band_byte (spec_smoothed SMOOTHING_TIME_CONSTANT AUDIO_BUFFER
                        (m_magnitudeBuffer s) ?bins k)) [0..<NUM_BANDS]"
    by (rule map_cong) simp_all
  have tk: "take NUM_BANDS ?a1 = map (\<lambda>k. band_byte (spec_smoothed SMOOTHING_TIME_CONSTANT AUDIO_BUFFER
                        (m_magnitudeBuffer s) ?bins k)) [0..<NUM_BANDS]"
    unfolding m1 by simp
  have "AudioData kiss_fft pAudioData iAudioDataLength s
       = Inr (s\<lparr>m_pcm := pcm, m_magnitudeBuffer := ?m,
               m_audioData := take NUM_BANDS ?a1 @ map (\<lambda>k. wave_byte (pcm ! k)) [0..<NUM_BANDS],
               m_needsUpload := True\<rparr>)"
    using lp by (simp add: AudioData_def w sm sp wv)
  then show ?thesis using w lp unfolding tk by blast
qed

lemma spec_smoothed_nonneg:
  "0 \<le> c \<Longrightarrow> c \<le> 1 \<Longrightarrow> 0 \<le> previous ! k \<Longrightarrow> 0 \<le> spec_smoothed c n previous bins k"
  by (simp add: spec_smoothed_def)

lemma SMOOTHING_TIME_CONSTANT_range: "0 \<le> SMOOTHING_TIME_CONSTANT" "SMOOTHING_TIME_CONSTANT \<le> 1"
  by (simp_all add: SMOOTHING_TIME_CONSTANT_def)

lemma trunc_spectrum_byte_zero: "trunc_spectrum_byte 0 = 0"
  by (simp add: trunc_spectrum_byte_def spec_dB_def spec_clamp_dB_def spec_rescale_def int_cast_def)

text \<open>
  Claim C3, as amended. For every band \<open>k < N/2\<close> the byte \<^verbatim>\<open>AudioData\<close> writes to
  \<^verbatim>\<open>m_audioData[k]\<close> is: the smoothed magnitude, sent to -100 dB when it is zero and to
  \<open>20 * log10\<close> of it otherwise, clamped to \<open>[-100, -30]\<close>, rescaled to \<open>[0, 255]\<close>,
  truncated toward zero (not rounded to the nearest integer), clamped to \<open>[0, 255]\<close>. A zero
  magnitude gives the byte 0.
\<close>

theorem AudioData_spectrum_byte:
  assumes "length (m_pcm s) = AUDIO_BUFFER"
    and "length (m_magnitudeBuffer s) = NUM_BANDS"
    and "length (m_audioData s) = AUDIO_BUFFER"
    and "list_all (\<lambda>x. 0 \<le> x) (m_magnitudeBuffer s)"
    and "\<forall>xs. length (kiss_fft xs) = length xs"
    and "size_t_of_int iAudioDataLength \<le> length pAudioData"
    and "k < NUM_BANDS"
  shows "\<exists>s'. AudioData kiss_fft pAudioData iAudioDataLength s = Inr s'
     \<and> uint (m_audioData s' ! k) = trunc_spectrum_byte (m_magnitudeBuffer s' ! k)
     \<and> trunc_spectrum_byte 0 = 0"
proof -
  obtain pcm where r: "AudioData kiss_fft pAudioData iAudioDataLength s
       = Inr (s\<lparr>m_pcm := pcm,
               m_magnitudeBuffer :=
                 map (spec_smoothed SMOOTHING_TIME_CONSTANT AUDIO_BUFFER (m_magnitudeBuffer s)
                        (AudioData_bins kiss_fft pcm)) [0..<NUM_BANDS],
               m_audioData :=
                 map (\<lambda>k. band_byte (spec_smoothed SMOOTHING_TIME_CONSTANT AUDIO_BUFFER
                        (m_magnitudeBuffer s) (AudioData_bins kiss_fft pcm) k)) [0..<NUM_BANDS]
                 @ map (\<lambda>k. wave_byte (pcm ! k)) [0..<NUM_BANDS],
               m_needsUpload := True\<rparr>)"
    using AudioData_eq[OF assms(1,2,3,5,6)] by blast
  have "0 \<le> m_magnitudeBuffer s ! k"
    using assms(2,4,7) by (simp add: list_all_length)
  then have "0 \<le> spec_smoothed SMOOTHING_TIME_CONSTANT AUDIO_BUFFER (m_magnitudeBuffer s)
                        (AudioData_bins kiss_fft pcm) k"
    by (rule spec_smoothed_nonneg[OF SMOOTHING_TIME_CONSTANT_range])
  then show ?thesis
    unfolding r using assms(7) by (simp add: nth_append band_byte_trunc trunc_spectrum_byte_zero)
qed

lemma construct_lengths:
  "length (m_pcm (construct host g)) = AUDIO_BUFFER"
  "length (m_magnitudeBuffer (construct host g)) = NUM_BANDS"
  "length (m_audioData (construct host g)) = AUDIO_BUFFER"
  "list_all (\<lambda>x. 0 \<le> x) (m_magnitudeBuffer (construct host g))"
  by (simp_all add: construct_def list_all_length)

lemma zero_less_NUM_BANDS: "0 < NUM_BANDS"
  by (simp add: NUM_BANDS_def AUDIO_BUFFER_def)

lemma WriteToBuffer_empty:
  "length pcm = AUDIO_BUFFER \<Longrightarrow> WriteToBuffer pcm [] (size_t_of_int 0) 2 = Inr pcm"
  using WriteToBuffer_two_part[of 0 "[]" pcm]
  by (simp add: size_t_of_int_def AUDIO_BUFFER_def)

lemma AudioData_in_silence:
  "k < AUDIO_BUFFER \<Longrightarrow> AudioData_in (replicate AUDIO_BUFFER 0) ! k = Complex 0 0"
  by (simp add: AudioData_in_def BlackmanWindow_def Let_def)

lemma seven_less_NUM_BANDS: "7 < NUM_BANDS"
  by (simp add: NUM_BANDS_def AUDIO_BUFFER_def)

lemma trunc_spectrum_byte_1e4: "trunc_spectrum_byte (1 / 10000) = 72"
  using band_byte_trunc[of "1 / 10000"] band_byte_1e4 by simp

text \<open>
  An empty chunk on a state whose band 7 holds the magnitude \<open>2/10000\<close>, with the identity
  for the transform: the ring stays silent, the smoothing halves the magnitude to
  \<open>1/10000\<close> (-80 dB), the rescaled value is \<open>510/7\<close>, about 72.86, and the byte is 72.
\<close>

theorem AudioData_spectrum_byte_witness:
  "\<exists>s'. AudioData (\<lambda>xs. xs) [] 0
            ((construct idle_host fresh_gl)\<lparr>m_magnitudeBuffer := replicate NUM_BANDS (2 / 10000)\<rparr>)
          = Inr s'
     \<and> m_magnitudeBuffer s' ! 7 = 1 / 10000
     \<and> uint (m_audioData s' ! 7) = 72"
proof -
  let ?s = "(construct idle_host fresh_gl)\<lparr>m_magnitudeBuffer := replicate NUM_BANDS (2 / 10000)\<rparr>"
  have p: "length (m_pcm ?s) = AUDIO_BUFFER" using construct_lengths(1) by simp
  have m: "length (m_magnitudeBuffer ?s) = NUM_BANDS" by simp
  have a: "length (m_audioData ?s) = AUDIO_BUFFER" using construct_lengths(3) by simp
  have n: "list_all (\<lambda>x. 0 \<le> x) (m_magnitudeBuffer ?s)" by (simp add: list_all_length)
  have f: "\<forall>xs::complex list. length ((\<lambda>xs. xs) xs) = length xs" by simp
  have l: "size_t_of_int 0 \<le> length ([]::real list)" by (simp add: size_t_of_int_def)
  obtain s' where r: "AudioData (\<lambda>xs. xs) [] 0 ?s = Inr s'"
    and b: "uint (m_audioData s' ! 7) = trunc_spectrum_byte (m_magnitudeBuffer s' ! 7)"
    using AudioData_spectrum_byte[OF p m a n f l seven_less_NUM_BANDS] by blast
  have w: "WriteToBuffer (m_pcm ?s) [] (size_t_of_int 0) 2 = Inr (replicate AUDIO_BUFFER 0)"
    using WriteToBuffer_empty[of "replicate AUDIO_BUFFER 0"] by (simp add: construct_def)
  obtain pcm where w': "WriteToBuffer (m_pcm ?s) [] (size_t_of_int 0) 2 = Inr pcm"
    and e: "AudioData (\<lambda>xs. xs) [] 0 ?s
       = Inr (?s\<lparr>m_pcm := pcm,
               m_magnitudeBuffer :=
                 map (spec_smoothed SMOOTHING_TIME_CONSTANT AUDIO_BUFFER (m_magnitudeBuffer ?s)
                        (AudioData_bins (\<lambda>xs. xs) pcm)) [0..<NUM_BANDS],
               m_audioData :=
                 map (\<lambda>k. band_byte (spec_smoothed SMOOTHING_TIME_CONSTANT AUDIO_BUFFER
                        (m_magnitudeBuffer ?s) (AudioData_bins (\<lambda>xs. xs) pcm) k)) [0..<NUM_BANDS]
                 @ map (\<lambda>k. wave_byte (pcm ! k)) [0..<NUM_BANDS],
               m_needsUpload := True\<rparr>)"
    using AudioData_eq[OF p m a f l] by blast
  have pz: "pcm = replicate AUDIO_BUFFER 0" using w w' by simp
  have bin: "AudioData_bins (\<lambda>xs. xs) pcm ! 7 = 0"
    unfolding pz AudioData_bins_def Let_def
    using AudioData_in_silence[of 7] by (simp add: AUDIO_BUFFER_def Complex_eq_0)
  have "m_magnitudeBuffer s' ! 7
      = spec_smoothed SMOOTHING_TIME_CONSTANT AUDIO_BUFFER (m_magnitudeBuffer ?s)
          (AudioData_bins (\<lambda>xs. xs) pcm) 7"
    using r e seven_less_NUM_BANDS by simp
  also have "\<dots> = 1 / 10000"
    using seven_less_NUM_BANDS
    by (simp add: spec_smoothed_def bin SMOOTHING_TIME_CONSTANT_def)
  finally have v: "m_magnitudeBuffer s' ! 7 = 1 / 10000" .
  show ?thesis using r b v trunc_spectrum_byte_1e4 by simp
qed

text \<open>
  The claim as stated asks for rounding to the nearest integer. At the magnitude
  \<open>1/10000\<close> (-80 dB) the rescaled value is \<open>510/7\<close>, about 72.86: the code stores 72,
  rounding gives 73.
\<close>

theorem AudioData_spectrum_byte_counterexample:
  "uint (band_byte (1 / 10000)) = 72 \<and> spec_spectrum_byte (1 / 10000) = 73"
proof -
  have "spec_dB (1 / 10000) = - 80"
    using log10_inverse_pow[of 4] by (simp add: spec_dB_def)
  then have r: "spec_rescale (spec_clamp_dB (spec_dB (1 / 10000))) = 510 / 7"
    by (simp add: spec_clamp_dB_def spec_rescale_def)
  have "spec_spectrum_byte (1 / 10000) = 73"
    unfolding spec_spectrum_byte_def r by (simp add: round_def)
  with band_byte_1e4 show ?thesis by simp
qed

text \<open>
  Claim C4. For every band \<open>k < N/2\<close> and every call of \<^verbatim>\<open>AudioData\<close>, the new value of
  \<^verbatim>\<open>m_magnitudeBuffer[k]\<close> is \<open>c * previous[k] + (1 - c) * |bin[k]| / N\<close> with \<open>c = 0.5\<close>
  and \<open>N = 1024\<close>, where the bins are the output of the transform on the windowed ring
  with the imaginary part of bin 0 set to zero.
\<close>

theorem AudioData_smoothing:
  assumes "length (m_pcm s) = AUDIO_BUFFER"
    and "length (m_magnitudeBuffer s) = NUM_BANDS"
    and "length (m_audioData s) = AUDIO_BUFFER"
    and "\<forall>xs. length (kiss_fft xs) = length xs"
    and "size_t_of_int iAudioDataLength \<le> length pAudioData"
    and "k < NUM_BANDS"
  shows "\<exists>s' out. AudioData kiss_fft pAudioData iAudioDataLength s = Inr s'
     \<and> out = kiss_fft (AudioData_in (m_pcm s'))
     \<and> m_magnitudeBuffer s' ! k
         = 0.5 * (m_magnitudeBuffer s ! k)
           + (1 - 0.5) * (cmod ((out[0 := Complex (Re (out ! 0)) 0]) ! k) / 1024)"
proof -
  obtain pcm where r: "AudioData kiss_fft pAudioData iAudioDataLength s
       = Inr (s\<lparr>m_pcm := pcm,
               m_magnitudeBuffer :=
                 map (spec_smoothed SMOOTHING_TIME_CONSTANT AUDIO_BUFFER (m_magnitudeBuffer s)
                        (AudioData_bins kiss_fft pcm)) [0..<NUM_BANDS],
               m_audioData :=
                 map (\<lambda>k. band_byte (spec_smoothed SMOOTHING_TIME_CONSTANT AUDIO_BUFFER
                        (m_magnitudeBuffer s) (AudioData_bins kiss_fft pcm) k)) [0..<NUM_BANDS]
                 @ map (\<lambda>k. wave_byte (pcm ! k)) [0..<NUM_BANDS],
               m_needsUpload := True\<rparr>)"
    using AudioData_eq[OF assms(1,2,3,4,5)] by blast
  have "spec_smoothed SMOOTHING_TIME_CONSTANT AUDIO_BUFFER (m_magnitudeBuffer s)
          (AudioData_bins kiss_fft pcm) k
        = 0.5 * (m_magnitudeBuffer s ! k)
           + (1 - 0.5) * (cmod (((kiss_fft (AudioData_in pcm))[0 := Complex (Re (kiss_fft (AudioData_in pcm) ! 0)) 0]) ! k) / 1024)"
    by (simp add: spec_smoothed_def SMOOTHING_TIME_CONSTANT_def AUDIO_BUFFER_def
        AudioData_bins_def Let_def)
  then show ?thesis
    unfolding r using assms(6) by simp
qed

lemma cmod_3_4: "cmod (Complex 3 4) = 5" "cmod (Complex 3 0) = 3"
proof -
  have "sqrt 25 = sqrt (5\<^sup>2)" by simp
  also have "\<dots> = 5" by (simp only: real_sqrt_abs)
  finally show "cmod (Complex 3 4) = 5" by (simp add: cmod_def)
  show "cmod (Complex 3 0) = 3" by (simp add: cmod_def)
qed

text \<open>
  A state whose bands hold \<open>1/4\<close>, and a transform whose every bin is \<open>3 + 4i\<close>, of
  modulus 5. Band 7 becomes \<open>0.5 * 1/4 + 0.5 * 5/1024 = 261/2048\<close>. Bin 0 loses its
  imaginary part before the smoothing, its modulus is 3, and band 0 becomes
  \<open>0.5 * 1/4 + 0.5 * 3/1024 = 259/2048\<close>.
\<close>

theorem AudioData_smoothing_witness:
  "\<exists>s'. AudioData (map (\<lambda>x. Complex 3 4)) [] 0
            ((construct idle_host fresh_gl)\<lparr>m_magnitudeBuffer := replicate NUM_BANDS (1 / 4)\<rparr>)
          = Inr s'
     \<and> m_magnitudeBuffer s' ! 7 = 261 / 2048
     \<and> m_magnitudeBuffer s' ! 0 = 259 / 2048"
proof -
  let ?s = "(construct idle_host fresh_gl)\<lparr>m_magnitudeBuffer := replicate NUM_BANDS (1 / 4)\<rparr>"
  let ?F = "map (\<lambda>x::complex. Complex 3 4)"
  have p: "length (m_pcm ?s) = AUDIO_BUFFER" using construct_lengths(1) by simp
  have m: "length (m_magnitudeBuffer ?s) = NUM_BANDS" by simp
  have a: "length (m_audioData ?s) = AUDIO_BUFFER" using construct_lengths(3) by simp
  have f: "\<forall>xs::complex list. length (?F xs) = length xs" by simp
  have l: "size_t_of_int 0 \<le> length ([]::real list)" by (simp add: size_t_of_int_def)
  have o: "?F (AudioData_in pcm) ! k = Complex 3 4" if "k < AUDIO_BUFFER" for pcm k
    using that by (simp add: AudioData_in_def)
  have lo: "length (?F (AudioData_in pcm)) = AUDIO_BUFFER" for pcm
    by (simp add: AudioData_in_def)
  obtain s' where r: "AudioData ?F [] 0 ?s = Inr s'"
    and b: "m_magnitudeBuffer s' ! 7
         = 0.5 * (m_magnitudeBuffer ?s ! 7)
           + (1 - 0.5) * (cmod (((?F (AudioData_in (m_pcm s')))
                [0 := Complex (Re (?F (AudioData_in (m_pcm s')) ! 0)) 0]) ! 7) / 1024)"
    using AudioData_smoothing[OF p m a f l seven_less_NUM_BANDS] by blast
  obtain s'' where r0: "AudioData ?F [] 0 ?s = Inr s''"
    and b0: "m_magnitudeBuffer s'' ! 0
         = 0.5 * (m_magnitudeBuffer ?s ! 0)
           + (1 - 0.5) * (cmod (((?F (AudioData_in (m_pcm s'')))
                [0 := Complex (Re (?F (AudioData_in (m_pcm s'')) ! 0)) 0]) ! 0) / 1024)"
    using AudioData_smoothing[OF p m a f l zero_less_NUM_BANDS] by blast
  have same: "s'' = s'" using r r0 by simp
  have o7: "?F (AudioData_in (m_pcm s')) ! 7 = Complex 3 4"
    by (rule o) (simp add: AUDIO_BUFFER_def)
  have o0: "?F (AudioData_in (m_pcm s')) ! 0 = Complex 3 4"
    by (rule o) (simp add: AUDIO_BUFFER_def)
  have l0: "0 < length (?F (AudioData_in (m_pcm s')))"
    unfolding lo by (simp add: AUDIO_BUFFER_def)
  have v7: "m_magnitudeBuffer s' ! 7 = 261 / 2048"
    unfolding b using seven_less_NUM_BANDS by (simp add: o7 cmod_3_4)
  have v0: "m_magnitudeBuffer s' ! 0 = 259 / 2048"
    using b0 l0 zero_less_NUM_BANDS unfolding same by (simp add: o0 cmod_3_4)
  show ?thesis using r v7 v0 by blast
qed

lemma spec_mono_frame_two:
  "spec_mono_frame xs 2 j = (xs ! (j * 2) + xs ! (j * 2 + 1)) / 2"
proof -
  have "{0..<2::nat} = {0, 1}" by auto
  then show ?thesis by (simp add: spec_mono_frame_def)
qed

text \<open>
  Claim C2, as amended. For two channels, the count \<^verbatim>\<open>AudioData\<close> passes, and every
  source and destination that hold the frames, \<^verbatim>\<open>Mix\<close> returns, stores at destination
  frame \<open>j\<close> the mean of the source samples \<open>2 * j\<close> and \<open>2 * j + 1\<close>, consecutively, and
  leaves the rest of the destination as it was: the frames written are the down-mix of
  the source frames read.
\<close>

theorem Mix_stereo_average:
  assumes "s0 + 2 * frames \<le> length source" "d0 + frames \<le> length destination"
  shows "\<exists>r. Mix destination d0 source s0 frames 2 = Inr r
     \<and> length r = length destination
     \<and> (\<forall>j<frames. r ! (d0 + j) = (source ! (s0 + 2 * j) + source ! (s0 + 2 * j + 1)) / 2)
     \<and> (\<forall>k<length destination. k < d0 \<or> d0 + frames \<le> k \<longrightarrow> r ! k = destination ! k)
     \<and> take frames (drop d0 r) = spec_downmix (take (2 * frames) (drop s0 source)) 2"
proof -
  let ?m = "map (spec_mono_frame (drop s0 source) 2) [0..<frames]"
  let ?r = "take d0 destination @ ?m @ drop (d0 + frames) destination"
  have e: "Mix destination d0 source s0 frames 2 = Inr ?r"
    using Mix_two[OF assms] .
  have len: "length ?r = length destination" using assms(2) by simp
  have ld: "length (take d0 destination) = d0" using assms(2) by simp
  have a: "?r ! (d0 + j) = (source ! (s0 + 2 * j) + source ! (s0 + 2 * j + 1)) / 2"
    if "j < frames" for j
  proof -
    have "?r ! (d0 + j) = ?m ! j"
      using that ld by (simp add: nth_append)
    also have "\<dots> = spec_mono_frame (drop s0 source) 2 j" using that by simp
    also have "\<dots> = (source ! (s0 + 2 * j) + source ! (s0 + 2 * j + 1)) / 2"
      using that assms(1) by (simp add: spec_mono_frame_two mult.commute add.assoc)
    finally show ?thesis .
  qed
  have b: "?r ! k = destination ! k"
    if "k < length destination" "k < d0 \<or> d0 + frames \<le> k" for k
  proof (cases "k < d0")
    case True
    then show ?thesis using ld by (simp add: nth_append)
  next
    case False
    then have ge: "d0 + frames \<le> k" using that(2) by simp
    have "?r ! k = (?m @ drop (d0 + frames) destination) ! (k - d0)"
      using False ld by (simp add: nth_append)
    also have "\<dots> = drop (d0 + frames) destination ! (k - d0 - frames)"
      using ge by (simp add: nth_append)
    also have "\<dots> = destination ! k" using ge that(1) by simp
    finally show ?thesis .
  qed
  have c: "take frames (drop d0 ?r) = ?m" using ld by simp
  have d: "spec_downmix (take (2 * frames) (drop s0 source)) 2 = ?m"
  proof -
    have l2: "length (take (2 * frames) (drop s0 source)) div 2 = frames"
      using assms(1) by simp
    have "spec_mono_frame (take (2 * frames) (drop s0 source)) 2 j
        = spec_mono_frame (drop s0 source) 2 j" if "j < frames" for j
      using that by (simp add: spec_mono_frame_two)
    then show ?thesis unfolding spec_downmix_def l2 by simp
  qed
  show ?thesis using e len a b c d by (intro exI[of _ ?r]) simp
qed

text \<open>
  Two stereo frames read from sample 1 of \<open>[9, 1, 3, 5, 7]\<close> and written from frame 1 of
  a three-frame destination: \<open>(1 + 3) / 2\<close> and \<open>(5 + 7) / 2\<close>, and frame 0 is kept.
\<close>

theorem Mix_stereo_average_witness:
  "\<exists>r. Mix [0, 0, 0] 1 [9, 1, 3, 5, 7] 1 2 2 = Inr r
     \<and> r ! 0 = 0 \<and> r ! 1 = 2 \<and> r ! 2 = 6"
proof -
  have h: "1 + 2 * 2 \<le> length [9, 1, 3, 5, 7 :: real]" "1 + 2 \<le> length [0, 0, 0 :: real]"
    by simp_all
  obtain r where r: "Mix [0, 0, 0] 1 [9, 1, 3, 5, 7] 1 2 2 = Inr r"
    and a: "\<forall>j<2. r ! (1 + j)
              = ([9, 1, 3, 5, 7] ! (1 + 2 * j) + [9, 1, 3, 5, 7] ! (1 + 2 * j + 1)) / 2"
    and b: "\<forall>k<length [0, 0, 0 :: real]. k < 1 \<or> 1 + 2 \<le> k \<longrightarrow> r ! k = [0, 0, 0] ! k"
    using Mix_stereo_average[OF h] by blast
  have "r ! 0 = 0" using b[rule_format, of 0] by simp
  moreover have "r ! 1 = 2" using a[rule_format, of 0] by simp
  moreover have "r ! 2 = 6" using a[rule_format, of 1] by (simp add: numeral_2_eq_2)
  ultimately show ?thesis using r by blast
qed

text \<open>
  The claim as stated covers every channel count from 1 on. \<^verbatim>\<open>Mix\<close> stores the average of
  input frame \<open>j\<close> at \<^verbatim>\<open>destination[i / 2]\<close> with \<open>i = j * channels\<close>, the frame index only
  when \<open>channels = 2\<close>. Called with one channel, it stores the frames \<open>1\<close> and \<open>3\<close> both at
  index 0 and never writes index 1, where the claim asks for \<open>[1, 3]\<close>. (No call in the
  program passes a count other than 2.)
\<close>

theorem Mix_one_channel:
  "Mix [0, 0] 0 [1, 3] 0 2 1 = Inr [3, 0] \<and> spec_downmix [1, 3] 1 = [1, 3]"
  by (simp add: Mix_def Mix_loop.simps Mix_sum.simps spec_downmix_def spec_mono_frame_def)

text \<open>With three channels the third frame is stored at index 3 of a three-frame buffer.\<close>

lemma Mix_three_channels:
  "Mix [0, 0, 0] 0 [3, 3, 3, 6, 6, 6, 9, 9, 9] 0 3 3 = Inl OutOfBounds"
  by (simp add: Mix_def Mix_loop.simps Mix_sum.simps)

text \<open>
  Claim C1 (the code departs from it). For a chunk of at least \<open>N\<close> frames
  \<^verbatim>\<open>WriteToBuffer\<close> passes \<^verbatim>\<open>input + offset\<close> to \<^verbatim>\<open>Mix\<close>, with \<open>offset\<close> counted in
  frames, not in samples. A stereo chunk of 1025 frames whose sample \<open>k\<close> has the value
  \<open>k\<close> leaves \<open>(1 + 2) / 2\<close> at the head of the ring; the oldest of the most recent 1024
  frames is \<open>(2 + 3) / 2\<close>.
\<close>

theorem WriteToBuffer_long_chunk:
  "\<exists>r. WriteToBuffer (replicate AUDIO_BUFFER 0) (map real [0..<2050]) 2050 2 = Inr r
     \<and> r ! 0 = 3 / 2
     \<and> spec_most_recent AUDIO_BUFFER (spec_downmix (map real [0..<2050]) 2) ! 0 = 5 / 2"
proof -
  define input where "input = map real [0..<2050]"
  have len: "length input = 2050" by (simp add: input_def)
  have nth: "\<And>i. i < 2050 \<Longrightarrow> input ! i = real i"
    unfolding input_def by (simp del: upt_rec_numeral)
  have ns: "input ! Suc 0 = 1" "input ! Suc (Suc 0) = 2" "input ! Suc (Suc (Suc 0)) = 3"
    "input ! 2 = 2" "input ! 3 = 3"
    using nth[of "Suc 0"] nth[of "Suc (Suc 0)"] nth[of "Suc (Suc (Suc 0))"] nth[of 2] nth[of 3]
    by simp_all
  have full: "AUDIO_BUFFER \<le> 2050 div 2" by (simp add: AUDIO_BUFFER_def)
  have off: "2050 div 2 - AUDIO_BUFFER = 1" by (simp add: AUDIO_BUFFER_def)
  have w: "WriteToBuffer (replicate AUDIO_BUFFER 0) input 2050 2
      = Inr (map (spec_mono_frame (drop 1 input) 2) [0..<AUDIO_BUFFER])"
    using WriteToBuffer_two_full[OF full, of input "replicate AUDIO_BUFFER 0"] len
    unfolding off by simp
  have pos: "0 < AUDIO_BUFFER" by (simp add: AUDIO_BUFFER_def)
  have r0: "map (spec_mono_frame (drop 1 input) 2) [0..<AUDIO_BUFFER] ! 0 = 3 / 2"
    using pos len ns
    by (simp add: spec_mono_frame_two)
  have dm: "spec_downmix input 2 = map (spec_mono_frame input 2) [0..<1025]"
    by (simp add: spec_downmix_def len del: upt_rec_numeral)
  have s0: "spec_most_recent AUDIO_BUFFER (spec_downmix input 2) ! 0 = 5 / 2"
    unfolding dm using ns
    by (simp add: spec_most_recent_def AUDIO_BUFFER_def spec_mono_frame_two del: upt_rec_numeral)
  show ?thesis using w r0 s0 unfolding input_def by blast
qed

subsection \<open>Preset index arithmetic\<close>

lemma upt4: "[0..<4] = [0, 1, 2, 3]"
  by code_simp

lemma length_g_presets: "length g_presets = 2" by (simp add: g_presets_def)

lemma small_ucast: "uint (y :: 64 word) < 2 \<Longrightarrow> sint (ucast y :: 32 word) = uint y"
proof -
  assume "uint y < 2"
  then have "uint y = 0 \<or> uint y = 1" using uint_ge_0[of y] by arith
  then have "y = 0 \<or> y = 1" by (metis unsigned_1 unsigned_0 word_uint_eqI)
  then show ?thesis by auto
qed

lemma mod_presets_range:
  "0 \<le> sint (mod_presets x) \<and> sint (mod_presets x) < int (length g_presets)"
proof -
  have "uint ((scast x :: 64 word) mod 2) < 2" by (simp add: mod2_eq_if)
  then show ?thesis
    using small_ucast[of "(scast x :: 64 word) mod 2"] uint_ge_0[of "(scast x :: 64 word) mod 2"]
    by (simp add: mod_presets_def length_g_presets)
qed

subsection \<open>Frame lemmas\<close>

lemma UnloadPreset_fields [simp]:
  "m_currentPreset (UnloadPreset s) = m_currentPreset s"
  "m_settingsUseOwnshader (UnloadPreset s) = m_settingsUseOwnshader s"
  "m_initialized (UnloadPreset s) = m_initialized s"
  "lastpresetidx (UnloadPreset s) = lastpresetidx s"
  "m_bitsPrecision (UnloadPreset s) = m_bitsPrecision s"
  "m_audioData (UnloadPreset s) = m_audioData s"
  "m_shaderTextures (UnloadPreset s) = m_shaderTextures s"
  "m_channelTextures (UnloadPreset s) = m_channelTextures s"
  "m_needsUpload (UnloadPreset s) = m_needsUpload s"
  "m_matrixShader (UnloadPreset s) = m_matrixShader s"
  "m_usedShaderFile (UnloadPreset s) = m_usedShaderFile s"
  "fbwidth (UnloadPreset s) = fbwidth s"
  "fbheight (UnloadPreset s) = fbheight s"
  "framebuffer_texture (UnloadPreset s) = 0"
  "effect_fb (UnloadPreset s) = 0"
  "calls (gl (UnloadPreset s)) = calls (gl s)"
  "next_texture (gl (UnloadPreset s)) = next_texture (gl s)"
  by (simp_all add: UnloadPreset_def Let_def glDeleteTextures_def glDeleteFramebuffers_def)

lemma UnloadPreset_idle:
  "framebuffer_texture s = 0 \<Longrightarrow> effect_fb s = 0 \<Longrightarrow> UnloadPreset s = s"
  by (simp add: UnloadPreset_def)

lemma UnloadTextures_step_fields [simp]:
  "m_currentPreset (UnloadTextures_step i s) = m_currentPreset s"
  "m_settingsUseOwnshader (UnloadTextures_step i s) = m_settingsUseOwnshader s"
  "m_initialized (UnloadTextures_step i s) = m_initialized s"
  "lastpresetidx (UnloadTextures_step i s) = lastpresetidx s"
  "m_bitsPrecision (UnloadTextures_step i s) = m_bitsPrecision s"
  "m_audioData (UnloadTextures_step i s) = m_audioData s"
  "m_shaderTextures (UnloadTextures_step i s) = m_shaderTextures s"
  "m_needsUpload (UnloadTextures_step i s) = m_needsUpload s"
  "m_matrixShader (UnloadTextures_step i s) = m_matrixShader s"
  "m_usedShaderFile (UnloadTextures_step i s) = m_usedShaderFile s"
  "framebuffer_texture (UnloadTextures_step i s) = framebuffer_texture s"
  "effect_fb (UnloadTextures_step i s) = effect_fb s"
  "calls (gl (UnloadTextures_step i s)) = calls (gl s)"
  "next_texture (gl (UnloadTextures_step i s)) = next_texture (gl s)"
  "m_channelTextures (UnloadTextures_step i s) = (m_channelTextures s)(i := 0)"
  by (auto simp: UnloadTextures_step_def glDeleteTextures_def)

lemma UnloadTextures_fields [simp]:
  "m_currentPreset (UnloadTextures s) = m_currentPreset s"
  "m_settingsUseOwnshader (UnloadTextures s) = m_settingsUseOwnshader s"
  "m_initialized (UnloadTextures s) = m_initialized s"
  "lastpresetidx (UnloadTextures s) = lastpresetidx s"
  "m_bitsPrecision (UnloadTextures s) = m_bitsPrecision s"
  "m_audioData (UnloadTextures s) = m_audioData s"
  "m_shaderTextures (UnloadTextures s) = m_shaderTextures s"
  "m_needsUpload (UnloadTextures s) = m_needsUpload s"
  "m_matrixShader (UnloadTextures s) = m_matrixShader s"
  "m_usedShaderFile (UnloadTextures s) = m_usedShaderFile s"
  "framebuffer_texture (UnloadTextures s) = framebuffer_texture s"
  "effect_fb (UnloadTextures s) = effect_fb s"
  "calls (gl (UnloadTextures s)) = calls (gl s)"
  "next_texture (gl (UnloadTextures s)) = next_texture (gl s)"
  "m_channelTextures (UnloadTextures s) = (m_channelTextures s)(0 := 0, 1 := 0, 2 := 0, 3 := 0)"
  by (simp_all add: UnloadTextures_def upt4)

lemma LoadPreset_shader_fields [simp]:
  "m_currentPreset (LoadPreset_shader host now p s) = m_currentPreset s"
  "m_settingsUseOwnshader (LoadPreset_shader host now p s) = m_settingsUseOwnshader s"
  "m_initialized (LoadPreset_shader host now p s) = m_initialized s"
  "lastpresetidx (LoadPreset_shader host now p s) = lastpresetidx s"
  "m_bitsPrecision (LoadPreset_shader host now p s) = m_bitsPrecision s"
  "m_audioData (LoadPreset_shader host now p s) = m_audioData s"
  "m_shaderTextures (LoadPreset_shader host now p s) = m_shaderTextures s"
  "m_channelTextures (LoadPreset_shader host now p s) = m_channelTextures s"
  "m_needsUpload (LoadPreset_shader host now p s) = m_needsUpload s"
  "m_usedShaderFile (LoadPreset_shader host now p s) = m_usedShaderFile s"
  "fbwidth (LoadPreset_shader host now p s) = fbwidth s"
  "fbheight (LoadPreset_shader host now p s) = fbheight s"
  "calls (gl (LoadPreset_shader host now p s)) = calls (gl s)"
  by (simp_all add: LoadPreset_shader_def Let_def glGenTextures_def glGenFramebuffers_def
      glTexImage2D_def glFramebufferTexture2D_def split: option.splits)

lemma RenderTo_upload_fields [simp]:
  "m_currentPreset (RenderTo_upload s) = m_currentPreset s"
  "m_settingsUseOwnshader (RenderTo_upload s) = m_settingsUseOwnshader s"
  "m_initialized (RenderTo_upload s) = m_initialized s"
  "lastpresetidx (RenderTo_upload s) = lastpresetidx s"
  "m_bitsPrecision (RenderTo_upload s) = m_bitsPrecision s"
  "m_audioData (RenderTo_upload s) = m_audioData s"
  "m_shaderTextures (RenderTo_upload s) = m_shaderTextures s"
  "m_channelTextures (RenderTo_upload s) = m_channelTextures s"
  "m_matrixShader (RenderTo_upload s) = m_matrixShader s"
  "m_displayShader (RenderTo_upload s) = m_displayShader s"
  "m_usedShaderFile (RenderTo_upload s) = m_usedShaderFile s"
  "fbwidth (RenderTo_upload s) = fbwidth s"
  "fbheight (RenderTo_upload s) = fbheight s"
  "framebuffer_texture (RenderTo_upload s) = framebuffer_texture s"
  "effect_fb (RenderTo_upload s) = effect_fb s"
  "m_initialTime (RenderTo_upload s) = m_initialTime s"
  "calls (gl (RenderTo_upload s)) = calls (gl s)"
  "next_texture (gl (RenderTo_upload s)) = next_texture (gl s)"
  by (simp_all add: RenderTo_upload_def upt4 upload_step_def glTexImage2D_def)

lemma RenderTo_effect_fields [simp]:
  "m_currentPreset (RenderTo_effect t fb s) = m_currentPreset s"
  "m_settingsUseOwnshader (RenderTo_effect t fb s) = m_settingsUseOwnshader s"
  "m_initialized (RenderTo_effect t fb s) = m_initialized s"
  "lastpresetidx (RenderTo_effect t fb s) = lastpresetidx s"
  "m_bitsPrecision (RenderTo_effect t fb s) = m_bitsPrecision s"
  "m_audioData (RenderTo_effect t fb s) = m_audioData s"
  "m_shaderTextures (RenderTo_effect t fb s) = m_shaderTextures s"
  "m_channelTextures (RenderTo_effect t fb s) = m_channelTextures s"
  "m_needsUpload (RenderTo_effect t fb s) = m_needsUpload s"
  "m_matrixShader (RenderTo_effect t fb s) = m_matrixShader s"
  "m_displayShader (RenderTo_effect t fb s) = m_displayShader s"
  "m_usedShaderFile (RenderTo_effect t fb s) = m_usedShaderFile s"
  "fbwidth (RenderTo_effect t fb s) = fbwidth s"
  "fbheight (RenderTo_effect t fb s) = fbheight s"
  "framebuffer_texture (RenderTo_effect t fb s) = framebuffer_texture s"
  "effect_fb (RenderTo_effect t fb s) = effect_fb s"
  "next_texture (gl (RenderTo_effect t fb s)) = next_texture (gl s)"
  "images (gl (RenderTo_effect t fb s)) = images (gl s)"
  by (simp_all add: RenderTo_effect_def gl_log_def)

lemma RenderTo_display_fields [simp]:
  "m_currentPreset (RenderTo_display fb s) = m_currentPreset s"
  "m_settingsUseOwnshader (RenderTo_display fb s) = m_settingsUseOwnshader s"
  "m_initialized (RenderTo_display fb s) = m_initialized s"
  "lastpresetidx (RenderTo_display fb s) = lastpresetidx s"
  "m_bitsPrecision (RenderTo_display fb s) = m_bitsPrecision s"
  "m_audioData (RenderTo_display fb s) = m_audioData s"
  "m_shaderTextures (RenderTo_display fb s) = m_shaderTextures s"
  "m_channelTextures (RenderTo_display fb s) = m_channelTextures s"
  "m_needsUpload (RenderTo_display fb s) = m_needsUpload s"
  "m_matrixShader (RenderTo_display fb s) = m_matrixShader s"
  "m_displayShader (RenderTo_display fb s) = m_displayShader s"
  "m_usedShaderFile (RenderTo_display fb s) = m_usedShaderFile s"
  "fbwidth (RenderTo_display fb s) = fbwidth s"
  "fbheight (RenderTo_display fb s) = fbheight s"
  "framebuffer_texture (RenderTo_display fb s) = framebuffer_texture s"
  "effect_fb (RenderTo_display fb s) = effect_fb s"
  "next_texture (gl (RenderTo_display fb s)) = next_texture (gl s)"
  "images (gl (RenderTo_display fb s)) = images (gl s)"
  by (simp_all add: RenderTo_display_def gl_log_def)

lemma probe_runs_effect [simp]: "probe_runs (RenderTo_effect t fb s) = probe_runs s"
  by (simp add: probe_runs_def RenderTo_effect_def gl_log_def)

lemma probe_runs_display [simp]: "probe_runs (RenderTo_display fb s) = probe_runs s"
  by (simp add: probe_runs_def RenderTo_display_def gl_log_def)

lemma probe_runs_calls: "calls (gl s') = calls (gl s) \<Longrightarrow> probe_runs s' = probe_runs s"
  by (simp add: probe_runs_def)

text \<open>The mask \<open>(1 << b) - 1\<close> keeps the remainder modulo \<open>2 ^ b\<close>.\<close>

lemma and_mask_mod: "(x::int) AND (2 ^ n - 1) = x mod 2 ^ n"
proof -
  have "(2::int) ^ n - 1 = mask n" by (simp add: mask_eq_exp_minus_1)
  then show ?thesis by (simp add: take_bit_eq_mask[symmetric] take_bit_eq_mod)
qed

lemma RenderTo_intt_eq:
  "time_ok s \<Longrightarrow>
   RenderTo_intt now s
     = Inr (if m_bitsPrecision s = 0 then now - m_initialTime s
            else (now - m_initialTime s) mod 2 ^ nat (m_bitsPrecision s))"
  by (simp add: RenderTo_intt_def time_mask_def time_ok_def Let_def and_mask_mod)

subsection \<open>Launch\<close>

lemma Launch_file_texture_fields [simp]:
  "m_currentPreset (Launch_file_texture host i s) = m_currentPreset s"
  "m_settingsUseOwnshader (Launch_file_texture host i s) = m_settingsUseOwnshader s"
  "m_initialized (Launch_file_texture host i s) = m_initialized s"
  "lastpresetidx (Launch_file_texture host i s) = lastpresetidx s"
  "m_bitsPrecision (Launch_file_texture host i s) = m_bitsPrecision s"
  "m_audioData (Launch_file_texture host i s) = m_audioData s"
  "m_shaderTextures (Launch_file_texture host i s) = m_shaderTextures s"
  "m_needsUpload (Launch_file_texture host i s) = m_needsUpload s"
  "m_usedShaderFile (Launch_file_texture host i s) = m_usedShaderFile s"
  "framebuffer_texture (Launch_file_texture host i s) = framebuffer_texture s"
  "effect_fb (Launch_file_texture host i s) = effect_fb s"
  "calls (gl (Launch_file_texture host i s)) = calls (gl s)"
  by (simp_all add: Launch_file_texture_def CreateTexture_file_def glGenTextures_def
      glTexImage2D_def Let_def split: prod.splits)

lemma Launch_textures_fields [simp]:
  "m_currentPreset (Launch_textures host s) = m_currentPreset s"
  "m_settingsUseOwnshader (Launch_textures host s) = m_settingsUseOwnshader s"
  "m_initialized (Launch_textures host s) = m_initialized s"
  "lastpresetidx (Launch_textures host s) = lastpresetidx s"
  "m_bitsPrecision (Launch_textures host s) = m_bitsPrecision s"
  "m_audioData (Launch_textures host s) = m_audioData s"
  "m_shaderTextures (Launch_textures host s) = m_shaderTextures s"
  "m_needsUpload (Launch_textures host s) = m_needsUpload s"
  "m_usedShaderFile (Launch_textures host s) = m_usedShaderFile s"
  "framebuffer_texture (Launch_textures host s) = framebuffer_texture s"
  "effect_fb (Launch_textures host s) = effect_fb s"
  "calls (gl (Launch_textures host s)) = calls (gl s)"
  by (simp_all add: Launch_textures_def CreateTexture_data_def glGenTextures_def
      glTexImage2D_def Let_def split: prod.splits)

lemma Launch_select_total:
  "sint preset < int (length g_presets) \<Longrightarrow>
   \<exists>f t. Launch_select host preset s = Inr (s\<lparr>m_usedShaderFile := f, m_shaderTextures := t\<rparr>)"
  by (auto simp: Launch_select_def)

lemma probe_step_nonneg: "0 \<le> fst st \<Longrightarrow> 0 \<le> fst (fold (probe_step buffer w) js st)"
  by (induction js arbitrary: st) (simp_all add: probe_step_def Let_def)

lemma probe_count_nonneg: "0 \<le> probe_count buffer w h"
  by (simp add: probe_count_def probe_step_nonneg)

lemma RenderTo_matrix_eq:
  "time_ok s \<Longrightarrow>
   RenderTo now (m_matrixShader s) fb s
     = Inr (RenderTo_effect
              (real_of_int (if m_bitsPrecision s = 0 then now - m_initialTime s
                            else (now - m_initialTime s) mod 2 ^ nat (m_bitsPrecision s)) / 1000)
              fb (RenderTo_upload s))"
  by (simp add: RenderTo_def RenderTo_intt_eq)

lemma RenderTo_total:
  "time_ok s \<Longrightarrow>
   \<exists>s'. RenderTo now shader fb s = Inr s'
     \<and> m_currentPreset s' = m_currentPreset s
     \<and> m_settingsUseOwnshader s' = m_settingsUseOwnshader s
     \<and> m_initialized s' = m_initialized s
     \<and> lastpresetidx s' = lastpresetidx s
     \<and> m_bitsPrecision s' = m_bitsPrecision s
     \<and> m_displayShader s' = m_displayShader s
     \<and> probe_runs s' = probe_runs s"
proof (cases "shader = m_matrixShader s")
  case True
  assume "time_ok s"
  then show ?thesis using True
    by (simp add: RenderTo_matrix_eq probe_runs_calls[of "RenderTo_upload s" s])
next
  case False
  then show ?thesis by (simp add: RenderTo_def)
qed

lemma time_ok_cong: "m_bitsPrecision s' = m_bitsPrecision s \<Longrightarrow> time_ok s' = time_ok s"
  by (simp add: time_ok_def)

lemma DetermineBitsPrecision_result:
  assumes "time_ok s"
  shows "\<exists>s0. DetermineBitsPrecision host now s
           = Inr (probe_count (probe_pixels host) 32 260, s0)
     \<and> m_currentPreset s0 = m_currentPreset s
     \<and> m_settingsUseOwnshader s0 = m_settingsUseOwnshader s
     \<and> m_initialized s0 = m_initialized s
     \<and> lastpresetidx s0 = lastpresetidx s
     \<and> m_bitsPrecision s0 = m_bitsPrecision s
     \<and> m_audioData s0 = m_audioData s
     \<and> m_shaderTextures s0 = m_shaderTextures s
     \<and> framebuffer_texture s0 = 0
     \<and> effect_fb s0 = 0
     \<and> probe_runs s0 = Suc (probe_runs s)"
proof -
  let ?s2 = "LoadPreset_shader host now
               (GetAddonPath host ''resources/shaders/main_test.frag.glsl'')
               (s\<lparr>fbwidth := 32, fbheight := 26 * 10\<rparr>)"
  have t2: "time_ok ?s2" using assms by (simp add: time_ok_def)
  obtain t where r: "RenderTo now (m_matrixShader ?s2) (effect_fb ?s2) ?s2
      = Inr (RenderTo_effect t (effect_fb ?s2) (RenderTo_upload ?s2))"
    using RenderTo_matrix_eq[OF t2] by blast
  have pr: "probe_runs (RenderTo_upload ?s2) = probe_runs s"
    by (rule probe_runs_calls) simp
  have pr2: "probe_runs (UnloadPreset
        ((RenderTo_effect t (effect_fb ?s2) (RenderTo_upload ?s2))
           \<lparr>gl := gl_log [ReadPixels] (gl (RenderTo_effect t (effect_fb ?s2) (RenderTo_upload ?s2)))\<rparr>))
      = Suc (probe_runs (RenderTo_effect t (effect_fb ?s2) (RenderTo_upload ?s2)))"
    by (simp add: probe_runs_def gl_log_def)
  show ?thesis
    unfolding DetermineBitsPrecision_def Let_def r
    using pr pr2 by simp
qed

lemma Launch_result:
  assumes "time_ok s" "sint preset < int (length g_presets)"
  shows "\<exists>s'. Launch host now preset s = Inr s'
     \<and> m_currentPreset s' = m_currentPreset s
     \<and> m_settingsUseOwnshader s' = m_settingsUseOwnshader s
     \<and> m_initialized s' = m_initialized s
     \<and> lastpresetidx s' = lastpresetidx s
     \<and> m_bitsPrecision s' = max (probe_count (probe_pixels host) 32 260) 13
     \<and> m_audioData s' = m_audioData s
     \<and> probe_runs s' = Suc (probe_runs s)"
proof -
  let ?bits = "probe_count (probe_pixels host) 32 260"
  obtain s0 where d: "DetermineBitsPrecision host now s = Inr (?bits, s0)"
    and f0: "m_currentPreset s0 = m_currentPreset s"
      "m_settingsUseOwnshader s0 = m_settingsUseOwnshader s"
      "m_initialized s0 = m_initialized s"
      "lastpresetidx s0 = lastpresetidx s"
      "m_audioData s0 = m_audioData s"
      "probe_runs s0 = Suc (probe_runs s)"
    using DetermineBitsPrecision_result[OF assms(1)] by blast
  let ?s1 = "UnloadTextures (s0\<lparr>m_bitsPrecision := max ?bits 13\<rparr>)"
  obtain f t where sel: "Launch_select host preset ?s1
      = Inr (?s1\<lparr>m_usedShaderFile := f, m_shaderTextures := t\<rparr>)"
    using Launch_select_total[OF assms(2)] by blast
  have p1: "probe_runs ?s1 = probe_runs s0"
    by (rule probe_runs_calls) simp
  let ?s7 = "(Launch_textures host (?s1\<lparr>m_usedShaderFile := f, m_shaderTextures := t\<rparr>))
               \<lparr>fbwidth := Width host, fbheight := Height host\<rparr>"
  have p7: "probe_runs (LoadPreset_shader host now (m_usedShaderFile ?s7) ?s7) = probe_runs ?s1"
    by (rule probe_runs_calls) simp
  show ?thesis
    using f0 p1 p7 by (simp add: Launch_def d sel Let_def)
qed

subsection \<open>Preset switches and frames\<close>

lemma probe_ok_range:
  "probe_ok host \<Longrightarrow>
   13 \<le> max (probe_count (probe_pixels host) 32 260) 13
   \<and> max (probe_count (probe_pixels host) 32 260) 13 < 31"
  by (simp add: probe_ok_def)

lemma switch_to_result:
  assumes "time_ok s" "probe_ok host" "sint p < int (length g_presets)"
  shows "\<exists>s'. switch_to host now p s = Inr s'
     \<and> m_currentPreset s' = p
     \<and> m_settingsUseOwnshader s' = m_settingsUseOwnshader s
     \<and> m_initialized s' = m_initialized s
     \<and> time_ok s'
     \<and> 13 \<le> m_bitsPrecision s'
     \<and> probe_runs s' = Suc (probe_runs s)"
proof -
  have t: "time_ok (s\<lparr>m_currentPreset := p\<rparr>)" using assms(1) by (simp add: time_ok_def)
  obtain s1 where l: "Launch host now p (s\<lparr>m_currentPreset := p\<rparr>) = Inr s1"
    and f: "m_currentPreset s1 = p" "m_settingsUseOwnshader s1 = m_settingsUseOwnshader s"
      "m_initialized s1 = m_initialized s"
      "m_bitsPrecision s1 = max (probe_count (probe_pixels host) 32 260) 13"
      "probe_runs s1 = Suc (probe_runs (s\<lparr>m_currentPreset := p\<rparr>))"
    using Launch_result[OF t assms(3), of host now] by auto
  have pr: "probe_runs (s1\<lparr>lastpresetidx := m_currentPreset s1\<rparr>) = probe_runs s1"
    "probe_runs (s\<lparr>m_currentPreset := p\<rparr>) = probe_runs s"
    by (simp_all add: probe_runs_def)
  show ?thesis
    using f pr probe_ok_range[OF assms(2)] by (simp add: switch_to_def l time_ok_def)
qed

lemma mod_presets_lt: "sint (mod_presets x) < int (length g_presets)"
  using mod_presets_range[of x] by simp

lemma LoadPreset_result:
  assumes "\<not> m_settingsUseOwnshader s" "time_ok s" "probe_ok host"
  shows "\<exists>s'. LoadPreset host now select s = Inr s'
     \<and> preset_in_range s'
     \<and> \<not> m_settingsUseOwnshader s'
     \<and> m_initialized s' = m_initialized s
     \<and> time_ok s'
     \<and> probe_runs s' = Suc (probe_runs s)"
  using switch_to_result[OF assms(2,3) mod_presets_lt, of now select] assms(1)
    mod_presets_range[of select]
  by (auto simp: LoadPreset_def preset_in_range_def)

lemma NextPreset_result:
  assumes "\<not> m_settingsUseOwnshader s" "time_ok s" "probe_ok host"
    and "sint (m_currentPreset s) \<noteq> 2 ^ 31 - 1"
  shows "\<exists>s'. NextPreset host now s = Inr s'
     \<and> preset_in_range s'
     \<and> \<not> m_settingsUseOwnshader s'
     \<and> m_initialized s' = m_initialized s
     \<and> time_ok s'
     \<and> probe_runs s' = Suc (probe_runs s)"
  using switch_to_result[OF assms(2,3) mod_presets_lt, of now "m_currentPreset s + 1"] assms(1,4)
    mod_presets_range[of "m_currentPreset s + 1"]
  by (auto simp: NextPreset_def preset_in_range_def)

lemma PrevPreset_result:
  assumes "\<not> m_settingsUseOwnshader s" "time_ok s" "probe_ok host"
    and "sint (m_currentPreset s) \<noteq> - (2 ^ 31)"
  shows "\<exists>s'. PrevPreset host now s = Inr s'
     \<and> preset_in_range s'
     \<and> \<not> m_settingsUseOwnshader s'
     \<and> m_initialized s' = m_initialized s
     \<and> time_ok s'
     \<and> probe_runs s' = Suc (probe_runs s)"
  using switch_to_result[OF assms(2,3) mod_presets_lt, of now "m_currentPreset s - 1"] assms(1,4)
    mod_presets_range[of "m_currentPreset s - 1"]
  by (auto simp: PrevPreset_def preset_in_range_def)

lemma Render_result:
  assumes "time_ok s"
  shows "\<exists>s'. Render now s = Inr s'
     \<and> m_currentPreset s' = m_currentPreset s
     \<and> m_settingsUseOwnshader s' = m_settingsUseOwnshader s
     \<and> m_initialized s' = m_initialized s
     \<and> time_ok s'
     \<and> probe_runs s' = probe_runs s"
proof (cases "m_initialized s")
  case False
  then show ?thesis using assms by (simp add: Render_def)
next
  case True
  show ?thesis
  proof (cases "fbwidth s \<noteq> 0 \<and> fbheight s \<noteq> 0")
    case False
    then show ?thesis
      using True assms RenderTo_total[OF assms, of now "m_matrixShader s" 0]
      by (auto simp: Render_def time_ok_def)
  next
    case both: True
    obtain s1 where r1: "RenderTo now (m_matrixShader s) (effect_fb s) s = Inr s1"
      and f1: "m_currentPreset s1 = m_currentPreset s"
        "m_settingsUseOwnshader s1 = m_settingsUseOwnshader s"
        "m_initialized s1 = m_initialized s"
        "m_bitsPrecision s1 = m_bitsPrecision s"
        "probe_runs s1 = probe_runs s"
      using RenderTo_total[OF assms, of now "m_matrixShader s" "effect_fb s"] by blast
    have t1: "time_ok s1" using assms f1 by (simp add: time_ok_def)
    show ?thesis
      using True both r1 f1 assms RenderTo_total[OF t1, of now "m_displayShader s1" 0]
      by (auto simp: Render_def time_ok_def)
  qed
qed

lemma preset_in_range_bounds:
  "preset_in_range s \<Longrightarrow>
   sint (m_currentPreset s) \<noteq> 2 ^ 31 - 1 \<and> sint (m_currentPreset s) \<noteq> - (2 ^ 31)"
  by (auto simp: preset_in_range_def length_g_presets)

text \<open>One call of the interface, without a custom shader set.\<close>

lemma step_result:
  assumes "\<not> m_settingsUseOwnshader s" "time_ok s" "probe_ok host"
    and "sint (m_currentPreset s) \<noteq> 2 ^ 31 - 1" "sint (m_currentPreset s) \<noteq> - (2 ^ 31)"
  shows "\<exists>s'. step host te s = Inr s'
     \<and> \<not> m_settingsUseOwnshader s'
     \<and> m_initialized s' = m_initialized s
     \<and> time_ok s'
     \<and> (if is_switch te then preset_in_range s' else m_currentPreset s' = m_currentPreset s)
     \<and> probe_runs s' = probe_runs s + (if is_switch te then 1 else 0)"
proof (cases "snd te")
  case EvRender
  then show ?thesis
    using Render_result[OF assms(2), of "fst te"] assms(1) by (auto simp: step_def is_switch_def)
next
  case EvNextPreset
  then show ?thesis
    using NextPreset_result[OF assms(1,2,3,4), of "fst te"] by (auto simp: step_def is_switch_def)
next
  case EvPrevPreset
  then show ?thesis
    using PrevPreset_result[OF assms(1,2,3,5), of "fst te"] by (auto simp: step_def is_switch_def)
next
  case (EvLoadPreset select)
  then show ?thesis
    using LoadPreset_result[OF assms(1,2,3), of "fst te" select] by (auto simp: step_def is_switch_def)
qed

lemma run_result:
  assumes "\<not> m_settingsUseOwnshader s" "time_ok s" "probe_ok host"
    and "sint (m_currentPreset s) \<noteq> 2 ^ 31 - 1" "sint (m_currentPreset s) \<noteq> - (2 ^ 31)"
  shows "\<exists>s'. run host tes s = Inr s'
     \<and> \<not> m_settingsUseOwnshader s'
     \<and> m_initialized s' = m_initialized s
     \<and> time_ok s'
     \<and> (if list_ex is_switch tes then preset_in_range s' else m_currentPreset s' = m_currentPreset s)
     \<and> probe_runs s' = probe_runs s + length (filter is_switch tes)"
  using assms
proof (induction tes arbitrary: s)
  case Nil
  then show ?case by simp
next
  case (Cons te tes)
  obtain s1 where s1: "step host te s = Inr s1"
    and f1: "\<not> m_settingsUseOwnshader s1" "m_initialized s1 = m_initialized s" "time_ok s1"
      "if is_switch te then preset_in_range s1 else m_currentPreset s1 = m_currentPreset s"
      "probe_runs s1 = probe_runs s + (if is_switch te then 1 else 0)"
    using step_result[OF Cons.prems, of te] by blast
  have b1: "sint (m_currentPreset s1) \<noteq> 2 ^ 31 - 1" "sint (m_currentPreset s1) \<noteq> - (2 ^ 31)"
    using f1(4) Cons.prems(4,5) preset_in_range_bounds[of s1] by (auto split: if_splits)
  obtain s2 where s2: "run host tes s1 = Inr s2"
    and f2: "\<not> m_settingsUseOwnshader s2" "m_initialized s2 = m_initialized s1" "time_ok s2"
      "if list_ex is_switch tes then preset_in_range s2 else m_currentPreset s2 = m_currentPreset s1"
      "probe_runs s2 = probe_runs s1 + length (filter is_switch tes)"
    using Cons.IH[OF f1(1,3) Cons.prems(3) b1] by blast
  show ?case
    using s1 s2 f1 f2 by (auto simp: preset_in_range_def split: if_splits)
qed

text \<open>With a custom shader set the preset functions do nothing.\<close>

lemma step_own:
  assumes "m_settingsUseOwnshader s" "time_ok s"
  shows "\<exists>s'. step host te s = Inr s'
     \<and> m_settingsUseOwnshader s'
     \<and> m_initialized s' = m_initialized s
     \<and> time_ok s'
     \<and> m_currentPreset s' = m_currentPreset s
     \<and> probe_runs s' = probe_runs s"
proof (cases "snd te")
  case EvRender
  then show ?thesis
    using Render_result[OF assms(2), of "fst te"] assms(1) by (auto simp: step_def)
qed (use assms in \<open>auto simp: step_def NextPreset_def PrevPreset_def LoadPreset_def\<close>)

lemma run_own:
  assumes "m_settingsUseOwnshader s" "time_ok s"
  shows "\<exists>s'. run host tes s = Inr s'
     \<and> m_settingsUseOwnshader s'
     \<and> m_initialized s' = m_initialized s
     \<and> time_ok s'
     \<and> m_currentPreset s' = m_currentPreset s
     \<and> probe_runs s' = probe_runs s"
  using assms
proof (induction tes arbitrary: s)
  case Nil
  then show ?case by simp
next
  case (Cons te tes)
  obtain s1 where s1: "step host te s = Inr s1"
    and f1: "m_settingsUseOwnshader s1" "m_initialized s1 = m_initialized s" "time_ok s1"
      "m_currentPreset s1 = m_currentPreset s" "probe_runs s1 = probe_runs s"
    using step_own[OF Cons.prems, of host te] by blast
  show ?case
    using Cons.IH[OF f1(1,3)] s1 f1 by auto
qed

lemma probe_black: "fst (fold (probe_step (\<lambda>i. 0) w) js st) = fst st"
  by (induction js arbitrary: st) (simp_all add: probe_step_def)

lemma probe_ok_idle: "probe_ok idle_host"
  by (simp add: probe_ok_def probe_count_def idle_host_def probe_black)

lemma striped_row:
  "probe_step (\<lambda>i. if odd (i div 128) then 255 else 0) 32 j st
     = (if odd j \<and> snd st = 0 then fst st + 1 else fst st, if odd j then 255 else 0)"
proof -
  have "4 * (j * 32 + drop_bit 1 (32::nat)) = j * 128 + 64" by (simp add: drop_bit_eq_div)
  then have "(4 * (j * 32 + drop_bit 1 (32::nat))) div 128 = j" by simp
  then show ?thesis by (simp add: probe_step_def Let_def)
qed

lemma striped_fold:
  "fold (probe_step (\<lambda>i. if odd (i div 128) then 255 else 0) 32) [0..<2 * k] (0, 0)
     = (int k, if k = 0 then 0 else 255)"
proof (induction k)
  case 0
  then show ?case by simp
next
  case (Suc k)
  have "[0..<2 * Suc k] = [0..<2 * k] @ [2 * k, Suc (2 * k)]" by simp
  then show ?case using Suc by (simp add: striped_row)
qed

lemma striped_count: "probe_count (probe_pixels striped_host) 32 260 = 130"
  using striped_fold[of 130] by (simp add: striped_host_def probe_count_def)


lemma construct_idle:
  "\<not> m_settingsUseOwnshader (construct idle_host g)"
  "m_currentPreset (construct idle_host g) = 0"
  "\<not> m_settingsUseOwnshader (construct striped_host g)"
  "m_currentPreset (construct striped_host g) = 0"
  by (simp_all add: construct_def idle_host_def striped_host_def)

lemma construct_fresh:
  "time_ok (construct host g)"
  "\<not> m_initialized (construct host g)"
  "probe_runs (construct host fresh_gl) = 0"
  by (simp_all add: construct_def time_ok_def probe_runs_def fresh_gl_def)

text \<open>
  Claim C7. Without a custom shader set, \<^verbatim>\<open>LoadPreset(select)\<close> for every \<^verbatim>\<open>int\<close>
  \<open>select\<close> (negative and out-of-bounds values included) leaves a current preset that is
  an index of the catalog; so do \<^verbatim>\<open>NextPreset\<close> and \<^verbatim>\<open>PrevPreset\<close> wherever the
  increment or decrement does not overflow; and every sequence of these calls and of
  frames from an index of the catalog ends at an index of the catalog. Each call returns:
  \<^verbatim>\<open>Launch\<close> indexes \<^verbatim>\<open>g_presets\<close> inside its bounds.
\<close>

theorem preset_index_in_range:
  assumes "\<not> m_settingsUseOwnshader s" "time_ok s" "probe_ok host"
  shows "(\<exists>s'. LoadPreset host now select s = Inr s' \<and> preset_in_range s')
     \<and> (sint (m_currentPreset s) \<noteq> 2 ^ 31 - 1 \<longrightarrow>
          (\<exists>s'. NextPreset host now s = Inr s' \<and> preset_in_range s'))
     \<and> (sint (m_currentPreset s) \<noteq> - (2 ^ 31) \<longrightarrow>
          (\<exists>s'. PrevPreset host now s = Inr s' \<and> preset_in_range s'))
     \<and> (preset_in_range s \<longrightarrow> (\<exists>s'. run host tes s = Inr s' \<and> preset_in_range s'))"
proof (intro conjI impI)
  show "\<exists>s'. LoadPreset host now select s = Inr s' \<and> preset_in_range s'"
    using LoadPreset_result[OF assms, of now select] by blast
next
  assume "sint (m_currentPreset s) \<noteq> 2 ^ 31 - 1"
  then show "\<exists>s'. NextPreset host now s = Inr s' \<and> preset_in_range s'"
    using NextPreset_result[OF assms, of now] by blast
next
  assume "sint (m_currentPreset s) \<noteq> - (2 ^ 31)"
  then show "\<exists>s'. PrevPreset host now s = Inr s' \<and> preset_in_range s'"
    using PrevPreset_result[OF assms, of now] by blast
next
  assume r: "preset_in_range s"
  obtain s' where s': "run host tes s = Inr s'"
    and f: "if list_ex is_switch tes then preset_in_range s'
            else m_currentPreset s' = m_currentPreset s"
    using run_result[OF assms, of tes] preset_in_range_bounds[OF r] by blast
  have "preset_in_range s'" using f r by (auto simp: preset_in_range_def split: if_splits)
  then show "\<exists>s'. run host tes s = Inr s' \<and> preset_in_range s'" using s' by blast
qed

theorem preset_index_in_range_witness:
  "(\<exists>s'. LoadPreset idle_host 0 (- 7) (construct idle_host fresh_gl) = Inr s' \<and> preset_in_range s')
   \<and> (\<exists>s'. NextPreset idle_host 0 (construct idle_host fresh_gl) = Inr s' \<and> preset_in_range s')
   \<and> (\<exists>s'. PrevPreset idle_host 0 (construct idle_host fresh_gl) = Inr s' \<and> preset_in_range s')
   \<and> (\<exists>s'. run idle_host [(1, EvPrevPreset), (2, EvRender), (3, EvLoadPreset 5)]
              (construct idle_host fresh_gl) = Inr s' \<and> preset_in_range s')"
proof -
  have r: "preset_in_range (construct idle_host fresh_gl)"
    by (simp add: preset_in_range_def construct_idle length_g_presets)
  have b: "sint (m_currentPreset (construct idle_host fresh_gl)) \<noteq> 2 ^ 31 - 1"
    "sint (m_currentPreset (construct idle_host fresh_gl)) \<noteq> - (2 ^ 31)"
    by (simp_all add: construct_idle)
  show ?thesis
    using preset_index_in_range[OF construct_idle(1)[of fresh_gl] construct_fresh(1) probe_ok_idle,
        where now = 0 and select = "- 7"
          and tes = "[(1, EvPrevPreset), (2, EvRender), (3, EvLoadPreset 5)]"] r b
    by blast
qed

subsection \<open>The precision probe\<close>

lemma Start_result:
  assumes "time_ok s" "probe_ok host" "sint (m_currentPreset s) < int (length g_presets)"
  shows "\<exists>s1. Start host now rate s = Inr s1
     \<and> m_initialized s1
     \<and> m_currentPreset s1 = m_currentPreset s
     \<and> m_settingsUseOwnshader s1 = m_settingsUseOwnshader s
     \<and> time_ok s1
     \<and> 13 \<le> m_bitsPrecision s1
     \<and> probe_runs s1 = Suc (probe_runs s)"
proof -
  let ?s = "s\<lparr>m_samplesPerSec := rate\<rparr>"
  have t: "time_ok ?s" using assms(1) by (simp add: time_ok_def)
  have p: "sint (m_currentPreset s) < int (length g_presets)" using assms(3) .
  obtain s1 where l: "Launch host now (m_currentPreset s) ?s = Inr s1"
    and f: "m_currentPreset s1 = m_currentPreset ?s"
      "m_settingsUseOwnshader s1 = m_settingsUseOwnshader ?s"
      "m_bitsPrecision s1 = max (probe_count (probe_pixels host) 32 260) 13"
      "probe_runs s1 = Suc (probe_runs ?s)"
    using Launch_result[OF t p, of host now] by blast
  have pr: "probe_runs (s1\<lparr>m_initialized := True\<rparr>) = probe_runs s1"
    "probe_runs ?s = probe_runs s"
    by (simp_all add: probe_runs_def)
  show ?thesis
    using f pr probe_ok_range[OF assms(2)] by (simp add: Start_def l time_ok_def)
qed

lemma Render_before_Start: "\<not> m_initialized s \<Longrightarrow> Render now s = Inr s"
  by (simp add: Render_def)

lemma Start_then_run:
  assumes "time_ok s" "probe_ok host"
    and "sint (m_currentPreset s) < int (length g_presets)"
    and "sint (m_currentPreset s) \<noteq> - (2 ^ 31)"
  shows "\<exists>s1 s2. Start host now rate s = Inr s1
     \<and> m_initialized s1
     \<and> probe_runs s1 = probe_runs s + 1
     \<and> run host tes s1 = Inr s2
     \<and> probe_runs s2
         = probe_runs s1 + (if m_settingsUseOwnshader s then 0 else length (filter is_switch tes))"
proof -
  obtain s1 where s1: "Start host now rate s = Inr s1"
    and f1: "m_initialized s1" "m_currentPreset s1 = m_currentPreset s"
      "m_settingsUseOwnshader s1 = m_settingsUseOwnshader s" "time_ok s1"
      "probe_runs s1 = Suc (probe_runs s)"
    using Start_result[OF assms(1,2,3), of now rate] by blast
  show ?thesis
  proof (cases "m_settingsUseOwnshader s")
    case True
    then have "m_settingsUseOwnshader s1" using f1 by simp
    then show ?thesis
      using run_own[OF _ f1(4), of host tes] s1 f1 True by auto
  next
    case False
    then have o: "\<not> m_settingsUseOwnshader s1" using f1 by simp
    have b: "sint (m_currentPreset s1) \<noteq> 2 ^ 31 - 1" "sint (m_currentPreset s1) \<noteq> - (2 ^ 31)"
      using assms(3,4) f1(2) by (simp_all add: length_g_presets)
    show ?thesis
      using run_result[OF o f1(4) assms(2) b, of tes] s1 f1 False by auto
  qed
qed

text \<open>
  Claim C5, as amended. \<^verbatim>\<open>DetermineBitsPrecision\<close> runs once in every \<^verbatim>\<open>Launch\<close>: once
  in \<^verbatim>\<open>Start\<close>, before \<^verbatim>\<open>m_initialized\<close> is set (until then \<^verbatim>\<open>Render\<close> draws nothing),
  and once more in every \<^verbatim>\<open>NextPreset\<close>, \<^verbatim>\<open>PrevPreset\<close> and \<^verbatim>\<open>LoadPreset\<close> when no
  custom shader set is configured. With a custom shader set these calls do nothing and
  the probe runs once.
\<close>

theorem probe_runs_in_every_launch:
  assumes "\<not> m_initialized s" "time_ok s" "probe_ok host"
    and "sint (m_currentPreset s) < int (length g_presets)"
    and "sint (m_currentPreset s) \<noteq> - (2 ^ 31)"
  shows "Render now0 s = Inr s
     \<and> (\<exists>s1 s2. Start host now rate s = Inr s1
          \<and> m_initialized s1
          \<and> probe_runs s1 = probe_runs s + 1
          \<and> run host tes s1 = Inr s2
          \<and> probe_runs s2
              = probe_runs s1
                + (if m_settingsUseOwnshader s then 0 else length (filter is_switch tes)))"
  using Render_before_Start[OF assms(1)] Start_then_run[OF assms(2,3,4,5)] by simp

theorem probe_runs_in_every_launch_witness:
  "Render 0 (construct idle_host fresh_gl) = Inr (construct idle_host fresh_gl)
   \<and> (\<exists>s1 s2. Start idle_host 0 44100 (construct idle_host fresh_gl) = Inr s1
        \<and> m_initialized s1
        \<and> probe_runs s1 = 1
        \<and> run idle_host [(16, EvRender), (33, EvNextPreset), (50, EvRender), (66, EvLoadPreset 1)] s1
            = Inr s2
        \<and> probe_runs s2 = 3)"
proof -
  have p: "sint (m_currentPreset (construct idle_host fresh_gl)) < int (length g_presets)"
    "sint (m_currentPreset (construct idle_host fresh_gl)) \<noteq> - (2 ^ 31)"
    by (simp_all add: construct_idle length_g_presets)
  let ?tes = "[(16, EvRender), (33, EvNextPreset), (50, EvRender), (66, EvLoadPreset 1)]"
  have n: "(if m_settingsUseOwnshader (construct idle_host fresh_gl) then 0
            else length (filter is_switch ?tes)) = 2"
    by (simp add: construct_idle is_switch_def)
  obtain s1 s2 where a: "Render 0 (construct idle_host fresh_gl) = Inr (construct idle_host fresh_gl)"
      "Start idle_host 0 44100 (construct idle_host fresh_gl) = Inr s1" "m_initialized s1"
      "probe_runs s1 = probe_runs (construct idle_host fresh_gl) + 1"
      "run idle_host ?tes s1 = Inr s2" "probe_runs s2 = probe_runs s1 + 2"
    using probe_runs_in_every_launch[OF construct_fresh(2) construct_fresh(1) probe_ok_idle p,
        where now0 = 0 and now = 0 and rate = 44100 and tes = ?tes]
    unfolding n by blast
  have "probe_runs s1 = 1" "probe_runs s2 = 3" using a(4,6) by (simp_all add: construct_fresh)
  then show ?thesis using a by blast
qed

text \<open>
  The claim as stated has the probe run once between start and stop. After \<^verbatim>\<open>Start\<close> and
  one \<^verbatim>\<open>NextPreset\<close> it has run twice.
\<close>

theorem probe_runs_in_every_launch_counterexample:
  "\<exists>s1 s2. Start idle_host 0 44100 (construct idle_host fresh_gl) = Inr s1
     \<and> probe_runs s1 = 1
     \<and> run idle_host [(16, EvRender), (33, EvNextPreset)] s1 = Inr s2
     \<and> probe_runs s2 = 2"
proof -
  have p: "sint (m_currentPreset (construct idle_host fresh_gl)) < int (length g_presets)"
    "sint (m_currentPreset (construct idle_host fresh_gl)) \<noteq> - (2 ^ 31)"
    by (simp_all add: construct_idle length_g_presets)
  let ?tes = "[(16, EvRender), (33, EvNextPreset)]"
  have n: "(if m_settingsUseOwnshader (construct idle_host fresh_gl) then 0
            else length (filter is_switch ?tes)) = 1"
    by (simp add: construct_idle is_switch_def)
  obtain s1 s2 where a: "Start idle_host 0 44100 (construct idle_host fresh_gl) = Inr s1"
      "probe_runs s1 = probe_runs (construct idle_host fresh_gl) + 1"
      "run idle_host ?tes s1 = Inr s2" "probe_runs s2 = probe_runs s1 + 1"
    using Start_then_run[OF construct_fresh(1) probe_ok_idle p,
        where now = 0 and rate = 44100 and tes = ?tes]
    unfolding n by blast
  have "probe_runs s1 = 1" "probe_runs s2 = 2" using a(2,4) by (simp_all add: construct_fresh)
  then show ?thesis using a by blast
qed

subsection \<open>Elapsed time\<close>

text \<open>
  For a precision \<open>b\<close> with \<open>0 < b < 31\<close> the time pushed to the shader is the elapsed time
  in milliseconds reduced modulo \<open>2 ^ b\<close> and then divided by 1000.
\<close>

lemma RenderTo_time:
  assumes "time_ok s" "m_bitsPrecision s \<noteq> 0"
  shows "\<exists>s'. RenderTo now (m_matrixShader s) fb s = Inr s'
     \<and> calls (gl s')
         = calls (gl s)
           @ [Uniform_iGlobalTime
                (real_of_int ((now - m_initialTime s) mod 2 ^ nat (m_bitsPrecision s)) / 1000)]
           @ map (\<lambda>i. BindChannel i (m_channelTextures s i)) [0..<4]
           @ [DrawArrays fb]"
  using assms by (simp add: RenderTo_matrix_eq RenderTo_effect_def gl_log_def)

text \<open>
  \<^verbatim>\<open>Launch\<close> leaves a precision of at least 13 on every host, and one below 31 when the
  probe frame shows fewer than 31 rising edges.
\<close>

lemma Launch_bits_floor:
  assumes "time_ok s" "sint preset < int (length g_presets)"
  shows "\<exists>s1. Launch host now preset s = Inr s1 \<and> 13 \<le> m_bitsPrecision s1"
  using Launch_result[OF assms, of host now] by auto

lemma Launch_bits:
  assumes "time_ok s" "probe_ok host" "sint preset < int (length g_presets)"
  shows "\<exists>s1. Launch host now preset s = Inr s1
     \<and> 13 \<le> m_bitsPrecision s1 \<and> m_bitsPrecision s1 < 31"
  using Launch_result[OF assms(1,3), of host now] probe_ok_range[OF assms(2)] by auto

lemma broken_probe_count: "probe_count (probe_pixels broken_probe_host) 32 260 = 130"
  using striped_count by (simp add: broken_probe_host_def)

lemma construct_broken_probe:
  "m_currentPreset (construct broken_probe_host g) = 0"
  by (simp add: construct_def idle_host_def striped_host_def broken_probe_host_def)

text \<open>
  Claim C8 (the code departs from it). \<^verbatim>\<open>Launch\<close> clamps the probe's count from below
  only, and \<^verbatim>\<open>RenderTo\<close> builds the mask as \<^verbatim>\<open>(1<<m_bitsPrecision)-1\<close> in \<^verbatim>\<open>int\<close>. The
  probe counts the rising edges of whatever \<^verbatim>\<open>glReadPixels\<close> returns. On a host where
  the diagnostic shader does not build, the probe reads the default framebuffer; with
  alternating rows on screen \<^verbatim>\<open>Start\<close> leaves a precision of 130, and the first frame
  shifts by 130: no reduction modulo \<open>2 ^ 130\<close> takes place, the mask is not defined.
\<close>

theorem Render_shift_undefined:
  "build_matrix broken_probe_host
       (GetAddonPath broken_probe_host ''resources/shaders/main_test.frag.glsl'') = None
   \<and> build_matrix broken_probe_host
       (GetAddonPath broken_probe_host ''resources/shaders/kodi.frag.glsl'') = Some 1
   \<and> (\<exists>s1. Start broken_probe_host 0 44100 (construct broken_probe_host fresh_gl) = Inr s1
          \<and> m_initialized s1
          \<and> m_bitsPrecision s1 = 130
          \<and> Render 5000 s1 = Inl UndefinedShift)"
proof -
  let ?c = "construct broken_probe_host fresh_gl"
  let ?s = "?c\<lparr>m_samplesPerSec := 44100\<rparr>"
  have t: "time_ok ?s" using construct_fresh(1)[of broken_probe_host fresh_gl]
    by (simp add: time_ok_def)
  have p: "sint (0::32 word) < int (length g_presets)" by (simp add: length_g_presets)
  obtain s1 where l: "Launch broken_probe_host 0 0 ?s = Inr s1"
    and b: "m_bitsPrecision s1 = max (probe_count (probe_pixels broken_probe_host) 32 260) 13"
    using Launch_result[OF t p, where host = broken_probe_host and now = 0] by blast
  have b130: "m_bitsPrecision s1 = 130" using b by (simp add: broken_probe_count)
  let ?s1 = "s1\<lparr>m_initialized := True\<rparr>"
  have st: "Start broken_probe_host 0 44100 ?c = Inr ?s1"
    by (simp add: Start_def construct_broken_probe l)
  have r: "Render 5000 ?s1 = Inl UndefinedShift"
    using b130 by (simp add: Render_def RenderTo_def RenderTo_intt_def time_mask_def)
  have h: "build_matrix broken_probe_host
       (GetAddonPath broken_probe_host ''resources/shaders/main_test.frag.glsl'') = None"
    "build_matrix broken_probe_host
       (GetAddonPath broken_probe_host ''resources/shaders/kodi.frag.glsl'') = Some 1"
    by (simp_all add: broken_probe_host_def striped_host_def idle_host_def)
  show ?thesis using h st r b130 by (intro conjI exI[of _ ?s1]) simp_all
qed

subsection \<open>Album art\<close>

lemma UpdateAlbumart_load_fields:
  "m_channelTextures (UpdateAlbumart_load host path s) 3
     = (if stbi_load host (TranslateSpecialProtocol host path) then next_texture (gl s) else 0)"
  "i \<noteq> 3 \<Longrightarrow> m_channelTextures (UpdateAlbumart_load host path s) i = m_channelTextures s i"
  "stbi_load host (TranslateSpecialProtocol host path) \<Longrightarrow>
     images (gl (UpdateAlbumart_load host path s)) (next_texture (gl s))
       = Some (FileImage (TranslateSpecialProtocol host path))"
  by (simp_all add: UpdateAlbumart_load_def CreateTexture_file_def glGenTextures_def
      glTexImage2D_def Let_def)

lemma UpdateAlbumart_eq:
  "UpdateAlbumart host albumart s
     = (let s1 = (if FileExists host (special_path host albumart @ ''.png'') then
                    UpdateAlbumart_load host (special_path host albumart @ ''.png'') s
                  else if FileExists host (special_path host albumart @ ''.jpg'') then
                    UpdateAlbumart_load host (special_path host albumart @ ''.jpg'') s
                  else s)
        in (m_channelTextures s1 3 \<noteq> 0, s1))"
  by (simp add: UpdateAlbumart_def Let_def)

text \<open>
  Claim C6, as amended. \<^verbatim>\<open>UpdateAlbumart\<close> returns success exactly when slot 3 holds a
  nonzero handle after the call. When neither thumbnail file exists the object is left
  exactly as it was, and the call reports whether slot 3 already held a texture. When a
  file exists, slot 3 is overwritten with the result of \<^verbatim>\<open>CreateTexture\<close>: a new texture
  holding the image when it loads, the zero handle when it does not, and then the call
  returns failure. The other slots are never touched.
\<close>

theorem UpdateAlbumart_result:
  "fst (UpdateAlbumart host albumart s)
     = (m_channelTextures (snd (UpdateAlbumart host albumart s)) 3 \<noteq> 0)
   \<and> (\<not> FileExists host (special_path host albumart @ ''.png'')
        \<and> \<not> FileExists host (special_path host albumart @ ''.jpg'')
        \<longrightarrow> snd (UpdateAlbumart host albumart s) = s)
   \<and> (FileExists host (special_path host albumart @ ''.png'')
        \<and> \<not> stbi_load host (TranslateSpecialProtocol host (special_path host albumart @ ''.png''))
        \<longrightarrow> m_channelTextures (snd (UpdateAlbumart host albumart s)) 3 = 0
            \<and> \<not> fst (UpdateAlbumart host albumart s))
   \<and> (\<not> FileExists host (special_path host albumart @ ''.png'')
        \<and> FileExists host (special_path host albumart @ ''.jpg'')
        \<and> \<not> stbi_load host (TranslateSpecialProtocol host (special_path host albumart @ ''.jpg''))
        \<longrightarrow> m_channelTextures (snd (UpdateAlbumart host albumart s)) 3 = 0
            \<and> \<not> fst (UpdateAlbumart host albumart s))
   \<and> (FileExists host (special_path host albumart @ ''.png'')
        \<and> stbi_load host (TranslateSpecialProtocol host (special_path host albumart @ ''.png''))
        \<longrightarrow> m_channelTextures (snd (UpdateAlbumart host albumart s)) 3 = next_texture (gl s)
            \<and> images (gl (snd (UpdateAlbumart host albumart s))) (next_texture (gl s))
                = Some (FileImage
                    (TranslateSpecialProtocol host (special_path host albumart @ ''.png''))))
   \<and> (\<not> FileExists host (special_path host albumart @ ''.png'')
        \<and> FileExists host (special_path host albumart @ ''.jpg'')
        \<and> stbi_load host (TranslateSpecialProtocol host (special_path host albumart @ ''.jpg''))
        \<longrightarrow> m_channelTextures (snd (UpdateAlbumart host albumart s)) 3 = next_texture (gl s)
            \<and> images (gl (snd (UpdateAlbumart host albumart s))) (next_texture (gl s))
                = Some (FileImage
                    (TranslateSpecialProtocol host (special_path host albumart @ ''.jpg''))))
   \<and> (\<forall>i. i \<noteq> 3 \<longrightarrow>
          m_channelTextures (snd (UpdateAlbumart host albumart s)) i = m_channelTextures s i)"
  by (simp add: UpdateAlbumart_eq Let_def UpdateAlbumart_load_fields)

theorem UpdateAlbumart_result_witness:
  "fst (UpdateAlbumart (idle_host\<lparr>FileExists := (\<lambda>p. True), stbi_load := (\<lambda>p. True)\<rparr>) ''song''
         (construct idle_host fresh_gl))
   \<and> m_channelTextures
        (snd (UpdateAlbumart (idle_host\<lparr>FileExists := (\<lambda>p. True), stbi_load := (\<lambda>p. True)\<rparr>)
               ''song'' (construct idle_host fresh_gl))) 3 = 1
   \<and> m_channelTextures
        (snd (UpdateAlbumart (idle_host\<lparr>FileExists := (\<lambda>p. True), stbi_load := (\<lambda>p. True)\<rparr>)
               ''song'' (construct idle_host fresh_gl))) 0 = 0"
proof -
  let ?h = "idle_host\<lparr>FileExists := (\<lambda>p. True), stbi_load := (\<lambda>p. True)\<rparr>"
  have f: "FileExists ?h (special_path ?h ''song'' @ ''.png'')"
    "stbi_load ?h (TranslateSpecialProtocol ?h (special_path ?h ''song'' @ ''.png''))"
    "next_texture (gl (construct idle_host fresh_gl)) = 1"
    "m_channelTextures (construct idle_host fresh_gl) 0 = 0"
    by (simp_all add: construct_def fresh_gl_def)
  show ?thesis
    using UpdateAlbumart_result[of ?h "''song''" "construct idle_host fresh_gl"] f
    by simp
qed

text \<open>
  The claim as stated: a thumbnail that cannot be resolved or loaded leaves slot 3 as it
  was and the call returns failure. With a texture 7 in slot 3 and no thumbnail file the
  call returns success; with a thumbnail file that does not decode the slot is set to 0.
\<close>

theorem UpdateAlbumart_result_counterexample:
  "fst (UpdateAlbumart idle_host ''song''
          ((construct idle_host fresh_gl)\<lparr>m_channelTextures := (\<lambda>i. 0)(3 := 7)\<rparr>))
   \<and> snd (UpdateAlbumart idle_host ''song''
          ((construct idle_host fresh_gl)\<lparr>m_channelTextures := (\<lambda>i. 0)(3 := 7)\<rparr>))
       = (construct idle_host fresh_gl)\<lparr>m_channelTextures := (\<lambda>i. 0)(3 := 7)\<rparr>
   \<and> m_channelTextures
        (snd (UpdateAlbumart (idle_host\<lparr>FileExists := (\<lambda>p. True)\<rparr>) ''song''
               ((construct idle_host fresh_gl)\<lparr>m_channelTextures := (\<lambda>i. 0)(3 := 7)\<rparr>))) 3 = 0"
  by (simp add: UpdateAlbumart_eq Let_def UpdateAlbumart_load_fields idle_host_def)

subsection \<open>Channel textures after Launch\<close>

lemma LoadPreset_shader_next_texture:
  "next_texture (gl s) \<le> next_texture (gl (LoadPreset_shader host now p s))"
  by (simp add: LoadPreset_shader_def Let_def glGenTextures_def glGenFramebuffers_def
      glTexImage2D_def glFramebufferTexture2D_def split: option.splits)

lemma LoadPreset_shader_handles:
  assumes "framebuffer_texture s = 0" "effect_fb s = 0"
  shows "(framebuffer_texture (LoadPreset_shader host now p s) = 0
          \<or> framebuffer_texture (LoadPreset_shader host now p s) = next_texture (gl s))
     \<and> (\<forall>t. t < next_texture (gl s) \<longrightarrow>
            images (gl (LoadPreset_shader host now p s)) t = images (gl s) t)
     \<and> (framebuffer_texture (LoadPreset_shader host now p s) = 0
          \<or> framebuffer_texture (LoadPreset_shader host now p s)
              < next_texture (gl (LoadPreset_shader host now p s)))"
  using assms
  by (simp add: LoadPreset_shader_def UnloadPreset_idle Let_def glGenTextures_def
      glGenFramebuffers_def glTexImage2D_def glFramebufferTexture2D_def split: option.splits)

lemma DetermineBitsPrecision_next_texture:
  assumes "time_ok s" "DetermineBitsPrecision host now s = Inr (b, s0)"
  shows "next_texture (gl s) \<le> next_texture (gl s0)"
proof -
  let ?s2 = "LoadPreset_shader host now
               (GetAddonPath host ''resources/shaders/main_test.frag.glsl'')
               (s\<lparr>fbwidth := 32, fbheight := 26 * 10\<rparr>)"
  have t2: "time_ok ?s2" using assms(1) by (simp add: time_ok_def)
  obtain t where r: "RenderTo now (m_matrixShader ?s2) (effect_fb ?s2) ?s2
      = Inr (RenderTo_effect t (effect_fb ?s2) (RenderTo_upload ?s2))"
    using RenderTo_matrix_eq[OF t2] by blast
  have "next_texture (gl s) \<le> next_texture (gl ?s2)"
    using LoadPreset_shader_next_texture[of "s\<lparr>fbwidth := 32, fbheight := 26 * 10\<rparr>"] by simp
  then show ?thesis
    using assms(2) unfolding DetermineBitsPrecision_def Let_def r
    by (auto simp: gl_log_def)
qed

lemma Launch_file_texture_handles:
  "m_channelTextures (Launch_file_texture host i s) j
     = (if j = i \<and> texture (m_shaderTextures s i) \<noteq> [] then
          (if stbi_load host (texture (m_shaderTextures s i)) then next_texture (gl s) else 0)
        else m_channelTextures s j)"
  "next_texture (gl (Launch_file_texture host i s))
     = (if texture (m_shaderTextures s i) \<noteq> [] \<and> stbi_load host (texture (m_shaderTextures s i))
        then Suc (next_texture (gl s)) else next_texture (gl s))"
  "t < next_texture (gl s) \<Longrightarrow> images (gl (Launch_file_texture host i s)) t = images (gl s) t"
  by (simp_all add: Launch_file_texture_def CreateTexture_file_def glGenTextures_def
      glTexImage2D_def Let_def)

lemma Launch_textures_handles:
  assumes "\<forall>j<4. m_channelTextures s j = 0"
  shows "m_channelTextures (Launch_textures host s) 0 = next_texture (gl s)"
    and "images (gl (Launch_textures host s)) (next_texture (gl s))
           = Some (AudioImage (m_audioData s))"
    and "\<forall>j<4. m_channelTextures (Launch_textures host s) j
           < next_texture (gl (Launch_textures host s))"
proof -
  let ?s3 = "s\<lparr>m_channelTextures := (m_channelTextures s)(0 := next_texture (gl s)),
               gl := glTexImage2D (next_texture (gl s)) (AudioImage (m_audioData s))
                       ((gl s)\<lparr>next_texture := Suc (next_texture (gl s))\<rparr>)\<rparr>"
  have e: "Launch_textures host s
      = Launch_file_texture host 3 (Launch_file_texture host 2 (Launch_file_texture host 1 ?s3))"
    by (simp add: Launch_textures_def CreateTexture_data_def glGenTextures_def Let_def)
  have n3: "next_texture (gl ?s3) = Suc (next_texture (gl s))"
    "images (gl ?s3) (next_texture (gl s)) = Some (AudioImage (m_audioData s))"
    by (simp_all add: glTexImage2D_def)
  show "m_channelTextures (Launch_textures host s) 0 = next_texture (gl s)"
    unfolding e by (simp add: Launch_file_texture_handles)
  show "images (gl (Launch_textures host s)) (next_texture (gl s))
           = Some (AudioImage (m_audioData s))"
    unfolding e using n3 by (simp add: Launch_file_texture_handles)
  have c: "\<And>j. j < 4 \<Longrightarrow> j = 0 \<or> j = 1 \<or> j = 2 \<or> j = (3::nat)" by arith
  show "\<forall>j<4. m_channelTextures (Launch_textures host s) j
           < next_texture (gl (Launch_textures host s))"
  proof (intro allI impI)
    fix j :: nat assume "j < 4"
    then have "j = 0 \<or> j = 1 \<or> j = 2 \<or> j = 3" by (rule c)
    then show "m_channelTextures (Launch_textures host s) j
           < next_texture (gl (Launch_textures host s))"
      unfolding e using assms n3(1)
      by (auto simp: Launch_file_texture_handles)
  qed
qed


lemma catalog_tag_99:
  assumes "p < length g_presets" "i < 4" "channel (g_presets ! p) i = 99"
  shows "i = 0"
proof -
  have "p = 0 \<or> p = 1" using assms(1) by (auto simp: length_g_presets)
  then show ?thesis
    using assms(2,3) by (auto simp: g_presets_def channel4_def split: if_splits)
qed

lemma catalog_tag_0: "p < length g_presets \<Longrightarrow> channel (g_presets ! p) 0 = 99"
proof -
  assume "p < length g_presets"
  then have "p = 0 \<or> p = 1" by (auto simp: length_g_presets)
  then show ?thesis by (auto simp: g_presets_def channel4_def)
qed

lemma Launch_channel_other: "j \<noteq> i \<Longrightarrow> Launch_channel host P i st j = st j"
  by (simp add: Launch_channel_def)

lemma Launch_channels_0:
  assumes "channel P 0 = 99"
  shows "fold (Launch_channel host P) [0..<4] st 0 = (st 0)\<lparr>audio := True\<rparr>"
proof -
  have "Launch_channel host P 0 st 0 = (st 0)\<lparr>audio := True\<rparr>"
    using assms by (simp add: Launch_channel_def g_fileTextures_def)
  then show ?thesis by (simp add: upt4 Launch_channel_other)
qed

lemma Launch_select_catalog:
  assumes "0 \<le> sint preset" "nat (sint preset) < length g_presets"
  shows "\<exists>f t. Launch_select host preset s = Inr (s\<lparr>m_usedShaderFile := f, m_shaderTextures := t\<rparr>)
     \<and> t 0 = (m_shaderTextures s 0)\<lparr>audio := True\<rparr>"
proof -
  let ?P = "g_presets ! nat (sint preset)"
  have "Launch_select host preset s
      = Inr (s\<lparr>m_usedShaderFile := GetAddonPath host (''resources/shaders/'' @ file ?P),
               m_shaderTextures := fold (Launch_channel host ?P) [0..<4] (m_shaderTextures s)\<rparr>)"
    using assms by (simp add: Launch_select_def)
  then show ?thesis
    using Launch_channels_0[OF catalog_tag_0[OF assms(2)], of host "m_shaderTextures s"] by blast
qed

lemma channels_apartI:
  "(\<And>j. j < 4 \<Longrightarrow> m_channelTextures s j < n) \<Longrightarrow>
   framebuffer_texture s = 0 \<or> framebuffer_texture s = n \<Longrightarrow> channels_apart s"
proof -
  assume lt: "\<And>j. j < 4 \<Longrightarrow> m_channelTextures s j < n"
    and fb: "framebuffer_texture s = 0 \<or> framebuffer_texture s = n"
  have "m_channelTextures s j = 0 \<or> m_channelTextures s j \<noteq> framebuffer_texture s"
    if "j < 4" for j
    using lt[OF that] fb by auto
  then show ?thesis by (simp add: channels_apart_def list_all_iff)
qed

lemma Launch_catalog:
  assumes "time_ok s" "0 < next_texture (gl s)"
    and "0 \<le> sint preset" "nat (sint preset) < length g_presets"
  shows "\<exists>s'. Launch host now preset s = Inr s'
     \<and> m_shaderTextures s' 0 = (m_shaderTextures s 0)\<lparr>audio := True\<rparr>
     \<and> m_channelTextures s' 0 \<noteq> 0
     \<and> images (gl s') (m_channelTextures s' 0) = Some (AudioImage (m_audioData s))
     \<and> channels_apart s'
     \<and> framebuffer_texture s' < next_texture (gl s')"
proof -
  let ?bits = "probe_count (probe_pixels host) 32 260"
  obtain s0 where d: "DetermineBitsPrecision host now s = Inr (?bits, s0)"
    and f0: "m_audioData s0 = m_audioData s" "m_shaderTextures s0 = m_shaderTextures s"
      "framebuffer_texture s0 = 0" "effect_fb s0 = 0"
    using DetermineBitsPrecision_result[OF assms(1)] by blast
  have n0: "0 < next_texture (gl s0)"
    using DetermineBitsPrecision_next_texture[OF assms(1) d] assms(2) by simp
  let ?s1 = "UnloadTextures (s0\<lparr>m_bitsPrecision := max ?bits 13\<rparr>)"
  obtain f t where sel: "Launch_select host preset ?s1
      = Inr (?s1\<lparr>m_usedShaderFile := f, m_shaderTextures := t\<rparr>)"
    and t0: "t 0 = (m_shaderTextures ?s1 0)\<lparr>audio := True\<rparr>"
    using Launch_select_catalog[OF assms(3,4)] by blast
  let ?s2 = "?s1\<lparr>m_usedShaderFile := f, m_shaderTextures := t\<rparr>"
  have z: "\<forall>j<4. m_channelTextures ?s2 j = 0" by simp
  have n2: "next_texture (gl ?s2) = next_texture (gl s0)" by simp
  let ?s6 = "Launch_textures host ?s2"
  let ?s7 = "?s6\<lparr>fbwidth := Width host, fbheight := Height host\<rparr>"
  let ?s' = "LoadPreset_shader host now (m_usedShaderFile ?s7) ?s7"
  have l: "Launch host now preset s = Inr ?s'"
    by (simp add: Launch_def d sel Let_def)
  have h6: "m_channelTextures ?s6 0 = next_texture (gl s0)"
    "images (gl ?s6) (next_texture (gl s0)) = Some (AudioImage (m_audioData s0))"
    "\<forall>j<4. m_channelTextures ?s6 j < next_texture (gl ?s6)"
    using Launch_textures_handles[OF z, of host] by simp_all
  have fb7: "framebuffer_texture ?s7 = 0" "effect_fb ?s7 = 0" using f0 by simp_all
  have h': "framebuffer_texture ?s' = 0 \<or> framebuffer_texture ?s' = next_texture (gl ?s7)"
    "\<forall>t. t < next_texture (gl ?s7) \<longrightarrow> images (gl ?s') t = images (gl ?s7) t"
    "framebuffer_texture ?s' = 0 \<or> framebuffer_texture ?s' < next_texture (gl ?s')"
    using LoadPreset_shader_handles[OF fb7, of host now "m_usedShaderFile ?s7"] by blast+
  have a: "m_shaderTextures ?s' 0 = (m_shaderTextures s 0)\<lparr>audio := True\<rparr>"
    using t0 f0 by simp
  have b: "m_channelTextures ?s' 0 \<noteq> 0" using h6(1) n0 by simp
  have "m_channelTextures ?s6 0 < next_texture (gl ?s6)" using h6(3) by (simp del: h6(1))
  then have lt: "next_texture (gl s0) < next_texture (gl ?s7)" unfolding h6(1) by simp
  have c: "images (gl ?s') (m_channelTextures ?s' 0) = Some (AudioImage (m_audioData s))"
    using h'(2) lt h6(1,2) f0 by simp
  have e: "channels_apart ?s'"
  proof (rule channels_apartI[where n = "next_texture (gl ?s7)"])
    fix j :: nat assume "j < 4"
    then show "m_channelTextures ?s' j < next_texture (gl ?s7)" using h6(3) by simp
  next
    show "framebuffer_texture ?s' = 0 \<or> framebuffer_texture ?s' = next_texture (gl ?s7)"
      using h'(1) .
  qed
  have "next_texture (gl ?s7) \<le> next_texture (gl ?s')"
    by (rule LoadPreset_shader_next_texture)
  then have "0 < next_texture (gl ?s')" using lt by simp
  then have g: "framebuffer_texture ?s' < next_texture (gl ?s')" using h'(3) by auto
  show ?thesis using l a b c e g by blast
qed

text \<open>A new album texture gets a name that is not in use.\<close>

lemma UpdateAlbumart_load_apart:
  assumes "channels_apart s" "framebuffer_texture s < next_texture (gl s)"
  shows "channels_apart (UpdateAlbumart_load host path s)"
proof -
  have fb: "framebuffer_texture (UpdateAlbumart_load host path s) = framebuffer_texture s"
    by (simp add: UpdateAlbumart_load_def CreateTexture_file_def glGenTextures_def
        glTexImage2D_def Let_def)
  have c3: "m_channelTextures (UpdateAlbumart_load host path s) 3 = 0
      \<or> m_channelTextures (UpdateAlbumart_load host path s) 3 = next_texture (gl s)"
    by (simp add: UpdateAlbumart_load_fields)
  have old: "m_channelTextures s j = 0 \<or> m_channelTextures s j \<noteq> framebuffer_texture s"
    if "j < 4" for j
    using assms(1) that by (simp add: channels_apart_def list_all_iff)
  have "m_channelTextures (UpdateAlbumart_load host path s) j = 0
      \<or> m_channelTextures (UpdateAlbumart_load host path s) j
          \<noteq> framebuffer_texture (UpdateAlbumart_load host path s)"
    if j: "j < 4" for j
  proof (cases "j = 3")
    case True
    then show ?thesis using c3 assms(2) unfolding fb by auto
  next
    case False
    then show ?thesis
      using old[OF j] unfolding fb by (simp add: UpdateAlbumart_load_fields)
  qed
  then show ?thesis by (simp add: channels_apart_def list_all_iff)
qed

lemma UpdateAlbumart_apart:
  assumes "channels_apart s" "framebuffer_texture s < next_texture (gl s)"
  shows "channels_apart (snd (UpdateAlbumart host albumart s))"
  using assms UpdateAlbumart_load_apart[OF assms]
  by (simp add: UpdateAlbumart_eq Let_def)

lemma upload_audio_channel:
  assumes "i < 4" "audio (m_shaderTextures s i)"
  shows "images (fold (upload_step s) [0..<4] g) (m_channelTextures s i)
           = Some (AudioImage (m_audioData s))"
proof -
  have "i = 0 \<or> i = 1 \<or> i = 2 \<or> i = 3" using assms(1) by arith
  then show ?thesis
    using assms(2) by (auto simp: upt4 upload_step_def glTexImage2D_def)
qed

lemma RenderTo_refresh:
  assumes "time_ok s" "m_needsUpload s" "i < 4" "audio (m_shaderTextures s i)"
  shows "\<exists>s'. RenderTo now (m_matrixShader s) fb s = Inr s'
     \<and> images (gl s') (m_channelTextures s' i) = Some (AudioImage (m_audioData s))
     \<and> \<not> m_needsUpload s'
     \<and> m_channelTextures s' = m_channelTextures s
     \<and> framebuffer_texture s' = framebuffer_texture s"
  using assms upload_audio_channel[OF assms(3,4)]
  by (simp add: RenderTo_matrix_eq) (simp add: RenderTo_upload_def RenderTo_effect_def)


lemma channels_apart_cong:
  "m_channelTextures s' = m_channelTextures s \<Longrightarrow>
   framebuffer_texture s' = framebuffer_texture s \<Longrightarrow> channels_apart s' = channels_apart s"
  by (simp add: channels_apart_def)

text \<open>
  Claim C10. After \<^verbatim>\<open>Launch\<close> of a preset of the catalog, every channel \<open>i\<close> whose tag is
  99 has its audio flag set; \<^verbatim>\<open>Launch\<close> has assigned it no file: its path is what it was
  and its texture is a new one holding the analysis buffer. No nonzero channel handle is
  the handle of the offscreen texture, also after a following \<^verbatim>\<open>UpdateAlbumart\<close>. In every
  later state with the same channels in which an upload is pending, the effect pass
  stores the analysis buffer in the texture of channel \<open>i\<close>, and leaves the handles apart.
\<close>

theorem framebuffer_tag_is_audio:
  assumes "time_ok s" "0 < next_texture (gl s)"
    and "0 \<le> sint preset" "nat (sint preset) < length g_presets"
    and "i < 4" "channel (g_presets ! nat (sint preset)) i = 99"
  shows "\<exists>s'. Launch host now preset s = Inr s'
     \<and> audio (m_shaderTextures s' i)
     \<and> texture (m_shaderTextures s' i) = texture (m_shaderTextures s i)
     \<and> m_channelTextures s' i \<noteq> 0
     \<and> images (gl s') (m_channelTextures s' i) = Some (AudioImage (m_audioData s))
     \<and> channels_apart s'
     \<and> (\<forall>host' albumart. channels_apart (snd (UpdateAlbumart host' albumart s')))
     \<and> (\<forall>s1 now' fb.
            time_ok s1 \<and> m_needsUpload s1
            \<and> m_shaderTextures s1 = m_shaderTextures s'
            \<and> m_channelTextures s1 = m_channelTextures s'
            \<and> framebuffer_texture s1 = framebuffer_texture s'
            \<longrightarrow> (\<exists>s2. RenderTo now' (m_matrixShader s1) fb s1 = Inr s2
                   \<and> images (gl s2) (m_channelTextures s2 i) = Some (AudioImage (m_audioData s1))
                   \<and> channels_apart s2))"
proof -
  have i0: "i = 0" using catalog_tag_99[OF assms(4,5,6)] .
  obtain s' where l: "Launch host now preset s = Inr s'"
    and a: "m_shaderTextures s' 0 = (m_shaderTextures s 0)\<lparr>audio := True\<rparr>"
    and b: "m_channelTextures s' 0 \<noteq> 0"
    and c: "images (gl s') (m_channelTextures s' 0) = Some (AudioImage (m_audioData s))"
    and e: "channels_apart s'"
    and g: "framebuffer_texture s' < next_texture (gl s')"
    using Launch_catalog[OF assms(1,2,3,4), of host now] by blast
  have u: "\<forall>host' albumart. channels_apart (snd (UpdateAlbumart host' albumart s'))"
    using UpdateAlbumart_apart[OF e g] by blast
  have r: "\<exists>s2. RenderTo now' (m_matrixShader s1) fb s1 = Inr s2
                   \<and> images (gl s2) (m_channelTextures s2 0) = Some (AudioImage (m_audioData s1))
                   \<and> channels_apart s2"
    if h: "time_ok s1 \<and> m_needsUpload s1
            \<and> m_shaderTextures s1 = m_shaderTextures s'
            \<and> m_channelTextures s1 = m_channelTextures s'
            \<and> framebuffer_texture s1 = framebuffer_texture s'" for s1 now' fb
  proof -
    have au: "audio (m_shaderTextures s1 0)" using h a by simp
    obtain s2 where s2: "RenderTo now' (m_matrixShader s1) fb s1 = Inr s2"
      "images (gl s2) (m_channelTextures s2 0) = Some (AudioImage (m_audioData s1))"
      "m_channelTextures s2 = m_channelTextures s1"
      "framebuffer_texture s2 = framebuffer_texture s1"
      using RenderTo_refresh[of s1 0 now' fb] h au by auto
    have "channels_apart s2"
      using channels_apart_cong[of s2 s'] s2(3,4) h e by simp
    then show ?thesis using s2 by blast
  qed
  show ?thesis
    unfolding i0 using l a b c e u r by (intro exI[of _ s']) simp
qed


theorem framebuffer_tag_is_audio_witness:
  "\<exists>s'. Launch idle_host 0 1 (construct idle_host fresh_gl) = Inr s'
     \<and> audio (m_shaderTextures s' 0)
     \<and> texture (m_shaderTextures s' 0) = []
     \<and> m_channelTextures s' 0 \<noteq> 0
     \<and> images (gl s') (m_channelTextures s' 0) = Some (AudioImage (replicate AUDIO_BUFFER 0))
     \<and> channels_apart s'
     \<and> channels_apart (snd (UpdateAlbumart idle_host ''song'' s'))
     \<and> (\<exists>s2. RenderTo 16 (m_matrixShader s') 0 (s'\<lparr>m_needsUpload := True\<rparr>) = Inr s2
            \<and> images (gl s2) (m_channelTextures s2 0) = Some (AudioImage (m_audioData s'))
            \<and> channels_apart s2)"
proof -
  let ?s = "construct idle_host fresh_gl"
  have h: "0 < next_texture (gl ?s)" "0 \<le> sint (1::32 word)"
    "nat (sint (1::32 word)) < length g_presets" "(0::nat) < 4"
    "channel (g_presets ! nat (sint (1::32 word))) 0 = 99"
    by (simp_all add: construct_def fresh_gl_def length_g_presets g_presets_def channel4_def)
  have p: "sint (1::32 word) < int (length g_presets)" by (simp add: length_g_presets)
  obtain s' where l: "Launch idle_host 0 1 ?s = Inr s'"
    and f: "audio (m_shaderTextures s' 0)"
      "texture (m_shaderTextures s' 0) = texture (m_shaderTextures ?s 0)"
      "m_channelTextures s' 0 \<noteq> 0"
      "images (gl s') (m_channelTextures s' 0) = Some (AudioImage (m_audioData ?s))"
      "channels_apart s'"
      "\<forall>host' albumart. channels_apart (snd (UpdateAlbumart host' albumart s'))"
    and r: "\<forall>s1 now' fb.
            time_ok s1 \<and> m_needsUpload s1
            \<and> m_shaderTextures s1 = m_shaderTextures s'
            \<and> m_channelTextures s1 = m_channelTextures s'
            \<and> framebuffer_texture s1 = framebuffer_texture s'
            \<longrightarrow> (\<exists>s2. RenderTo now' (m_matrixShader s1) fb s1 = Inr s2
                   \<and> images (gl s2) (m_channelTextures s2 0) = Some (AudioImage (m_audioData s1))
                   \<and> channels_apart s2)"
    using framebuffer_tag_is_audio[OF construct_fresh(1) h, where host = idle_host and now = 0]
    by blast
  have "m_bitsPrecision s' = max (probe_count (probe_pixels idle_host) 32 260) 13"
    using Launch_result[OF construct_fresh(1) p, where host = idle_host and now = 0
        and ?host1 = idle_host and ?g1 = fresh_gl] l by auto
  then have t: "time_ok (s'\<lparr>m_needsUpload := True\<rparr>)"
    using probe_ok_range[OF probe_ok_idle] by (simp add: time_ok_def)
  obtain s2 where s2: "RenderTo 16 (m_matrixShader (s'\<lparr>m_needsUpload := True\<rparr>)) 0
                         (s'\<lparr>m_needsUpload := True\<rparr>) = Inr s2"
      "images (gl s2) (m_channelTextures s2 0)
         = Some (AudioImage (m_audioData (s'\<lparr>m_needsUpload := True\<rparr>)))"
      "channels_apart s2"
    using r[rule_format, of "s'\<lparr>m_needsUpload := True\<rparr>" 16 0] t by auto
  have g: "texture (m_shaderTextures ?s 0) = []" "m_audioData ?s = replicate AUDIO_BUFFER 0"
    by (simp_all add: construct_def)
  show ?thesis
    using l f s2 unfolding g by (intro exI[of _ s']) simp
qed

subsection \<open>The buffers between audio callbacks\<close>

text \<open>
  The conditions the statements about \<^verbatim>\<open>AudioData\<close> ask of the state hold after the
  constructor and after every call of \<^verbatim>\<open>AudioData\<close>.
\<close>

lemma AudioData_keeps_buffers:
  assumes "length (m_pcm s) = AUDIO_BUFFER"
    and "length (m_magnitudeBuffer s) = NUM_BANDS"
    and "length (m_audioData s) = AUDIO_BUFFER"
    and "list_all (\<lambda>x. 0 \<le> x) (m_magnitudeBuffer s)"
    and "\<forall>xs. length (kiss_fft xs) = length xs"
    and "size_t_of_int iAudioDataLength \<le> length pAudioData"
  shows "\<exists>s'. AudioData kiss_fft pAudioData iAudioDataLength s = Inr s'
     \<and> length (m_pcm s') = AUDIO_BUFFER
     \<and> length (m_magnitudeBuffer s') = NUM_BANDS
     \<and> length (m_audioData s') = AUDIO_BUFFER
     \<and> list_all (\<lambda>x. 0 \<le> x) (m_magnitudeBuffer s')
     \<and> m_needsUpload s'
     \<and> m_shaderTextures s' = m_shaderTextures s
     \<and> m_channelTextures s' = m_channelTextures s
     \<and> framebuffer_texture s' = framebuffer_texture s
     \<and> m_bitsPrecision s' = m_bitsPrecision s"
proof -
  obtain pcm where lp: "length pcm = AUDIO_BUFFER"
    and r: "AudioData kiss_fft pAudioData iAudioDataLength s
       = Inr (s\<lparr>m_pcm := pcm,
               m_magnitudeBuffer :=
                 map (spec_smoothed SMOOTHING_TIME_CONSTANT AUDIO_BUFFER (m_magnitudeBuffer s)
                        (AudioData_bins kiss_fft pcm)) [0..<NUM_BANDS],
               m_audioData :=
                 map (\<lambda>k. band_byte (spec_smoothed SMOOTHING_TIME_CONSTANT AUDIO_BUFFER
                        (m_magnitudeBuffer s) (AudioData_bins kiss_fft pcm) k)) [0..<NUM_BANDS]
                 @ map (\<lambda>k. wave_byte (pcm ! k)) [0..<NUM_BANDS],
               m_needsUpload := True\<rparr>)"
    using AudioData_eq[OF assms(1,2,3,5,6)] by blast
  have nn: "0 \<le> spec_smoothed SMOOTHING_TIME_CONSTANT AUDIO_BUFFER (m_magnitudeBuffer s)
                        (AudioData_bins kiss_fft pcm) k" if "k < NUM_BANDS" for k
  proof -
    have "0 \<le> m_magnitudeBuffer s ! k" using assms(2,4) that by (simp add: list_all_length)
    then show ?thesis by (rule spec_smoothed_nonneg[OF SMOOTHING_TIME_CONSTANT_range])
  qed
  show ?thesis
    unfolding r using lp nn by (simp add: list_all_length NUM_BANDS_le)
qed

end
